theory Spec2Isabelle
  imports Main "HOL-Library.Sublist"
begin

section \<open>Byte strings and the helpers of Go's \<open>strings\<close> package used by the server\<close>

text \<open>
  A Go \<open>string\<close> is a sequence of bytes; it is modelled as a \<open>string\<close> (a list of
  8-bit characters). Indices are \<open>int\<close>, since the search functions answer \<open>-1\<close> for
  "not found".
\<close>

text \<open>\<open>strings.Index(s, sub)\<close>: the index of the first occurrence, or \<open>-1\<close>.\<close>

fun strings_Index :: "string \<Rightarrow> string \<Rightarrow> int" where
  "strings_Index [] sub = (if sub = [] then 0 else -1)"
| "strings_Index (c # cs) sub =
     (if prefix sub (c # cs) then 0
      else (let r = strings_Index cs sub in if r < 0 then -1 else r + 1))"

text \<open>\<open>strings.Contains(s, sub)\<close> is \<open>Index(s, sub) >= 0\<close>.\<close>

definition strings_Contains :: "string \<Rightarrow> string \<Rightarrow> bool" where
  "strings_Contains s sub = (0 \<le> strings_Index s sub)"

text \<open>\<open>strings.LastIndex(s, sub)\<close>: the index of the last occurrence, or \<open>-1\<close>.\<close>

fun strings_LastIndex :: "string \<Rightarrow> string \<Rightarrow> int" where
  "strings_LastIndex [] sub = (if sub = [] then 0 else -1)"
| "strings_LastIndex (c # cs) sub =
     (let r = strings_LastIndex cs sub in
      if 0 \<le> r then r + 1
      else if prefix sub (c # cs) then 0 else -1)"

text \<open>
  \<open>strings.Trim(s, cutset)\<close>: \<open>s\<close> without the leading and the trailing bytes that
  occur in \<open>cutset\<close>.
\<close>

definition strings_TrimLeft :: "string \<Rightarrow> string \<Rightarrow> string" where
  "strings_TrimLeft s cutset = dropWhile (\<lambda>c. c \<in> set cutset) s"

definition strings_TrimRight :: "string \<Rightarrow> string \<Rightarrow> string" where
  "strings_TrimRight s cutset = rev (dropWhile (\<lambda>c. c \<in> set cutset) (rev s))"

definition strings_Trim :: "string \<Rightarrow> string \<Rightarrow> string" where
  "strings_Trim s cutset = strings_TrimRight (strings_TrimLeft s cutset) cutset"

text \<open>\<open>strings.Join(elems, sep)\<close>: the elements with \<open>sep\<close> between them.\<close>

fun strings_Join :: "string list \<Rightarrow> string \<Rightarrow> string" where
  "strings_Join [] sep = []"
| "strings_Join [a] sep = a"
| "strings_Join (a # b # bs) sep = a @ sep @ strings_Join (b # bs) sep"

section \<open>Remote-address normalisation of the access log\<close>

text \<open>
  The first statements of the function deferred by \<open>Log.ServeHTTP\<close>:
  \<^verbatim>\<open>
  if idx := strings.LastIndex(r.RemoteAddr, ":"); idx > 0 {
      addr = r.RemoteAddr[:idx]
  } else {
      addr = r.RemoteAddr
  }
  addr = strings.Trim(addr, "[]")
  \<close>
  The slice \<open>r.RemoteAddr[:idx]\<close> is in range, as \<open>idx\<close> is an index of the string.
\<close>

definition log_addr :: "string \<Rightarrow> string" where
  "log_addr remoteAddr =
     (let idx = strings_LastIndex remoteAddr '':'';
          addr = (if idx > 0 then take (nat idx) remoteAddr else remoteAddr)
      in strings_Trim addr ''[]'')"


section \<open>Requests, headers and URLs (the parts of \<open>net/http\<close> the server reads)\<close>

text \<open>ASCII case folding of one byte.\<close>

definition to_lower :: "char \<Rightarrow> char" where
  "to_lower c = (let n = (of_char c :: nat) in if 65 \<le> n \<and> n \<le> 90 then char_of (n + 32) else c)"

definition to_upper :: "char \<Rightarrow> char" where
  "to_upper c = (let n = (of_char c :: nat) in if 97 \<le> n \<and> n \<le> 122 then char_of (n - 32) else c)"

text \<open>
  \<open>http.Header\<close> is \<open>map[string][]string\<close>. \<open>Get\<close>, \<open>Set\<close> and \<open>Add\<close>
  canonicalise the key first (\<open>textproto.CanonicalMIMEHeaderKey\<close>: the first letter and
  every letter after a hyphen in upper case, the others in lower case, for a key of
  letters, digits and hyphens as all keys of the server are), so that
  \<open>r.Header.Get("referer")\<close> reads the \<open>Referer\<close> header.
\<close>

type_synonym Header = "string \<rightharpoonup> string list"

fun canonical :: "bool \<Rightarrow> string \<Rightarrow> string" where
  "canonical up [] = []"
| "canonical up (c # cs) =
     (if up then to_upper c else to_lower c) # canonical (c = CHR ''-'') cs"

definition CanonicalMIMEHeaderKey :: "string \<Rightarrow> string" where
  "CanonicalMIMEHeaderKey k = canonical True k"

definition Header_Get :: "Header \<Rightarrow> string \<Rightarrow> string" where
  "Header_Get h k =
     (case h (CanonicalMIMEHeaderKey k) of
        None \<Rightarrow> []
      | Some [] \<Rightarrow> []
      | Some (v # _) \<Rightarrow> v)"

definition Header_Set :: "Header \<Rightarrow> string \<Rightarrow> string \<Rightarrow> Header" where
  "Header_Set h k v = h(CanonicalMIMEHeaderKey k \<mapsto> [v])"

definition Header_Add :: "Header \<Rightarrow> string \<Rightarrow> string \<Rightarrow> Header" where
  "Header_Add h k v =
     h(CanonicalMIMEHeaderKey k \<mapsto>
         (case h (CanonicalMIMEHeaderKey k) of None \<Rightarrow> [] | Some vs \<Rightarrow> vs) @ [v])"

text \<open>
  \<open>url.URL\<close>, with the fields that \<open>URL.String\<close> prints for a URL parsed from a
  request line (\<open>User\<close>, \<open>RawPath\<close>, \<open>ForceQuery\<close> and \<open>OmitHost\<close> are left at their
  zero values, and the path is taken as already escaped).
\<close>

record URL =
  Scheme :: string
  Opaque :: string
  URL_Host :: string
  Path :: string
  RawQuery :: string
  Fragment :: string

text \<open>
  \<open>http.Request\<close>, the fields the handlers read. For a request received by the server,
  \<open>RequestURI\<close> is the request target as sent on the request line (path and query
  string), \<open>Host\<close> the Host header, and \<open>URL\<close> the parsed request target.
\<close>

record Request =
  Method :: string
  RequestURI :: string
  Host :: string
  RemoteAddr :: string
  ReqHeader :: Header
  ReqURL :: URL

definition UserAgent :: "Request \<Rightarrow> string" where
  "UserAgent r = Header_Get (ReqHeader r) ''User-Agent''"

text \<open>
  \<open>URL.String\<close>: \<open>scheme:opaque?query#fragment\<close> when \<open>Opaque\<close> is set, otherwise
  \<open>scheme://host/path?query#fragment\<close>, where \<open>//\<close> is printed when a scheme or a host
  is present and host or path is not empty, a path that does not start with \<open>/\<close>
  gets one when a host is present, and a path printed first gets \<open>./\<close> in front when
  its first segment has a colon. Host, path and fragment are taken as already escaped.
\<close>

definition URL_String :: "URL \<Rightarrow> string" where
  "URL_String u =
     (if Scheme u \<noteq> [] then Scheme u @ '':'' else [])
     @ (if Opaque u \<noteq> [] then Opaque u
        else (if (Scheme u \<noteq> [] \<or> URL_Host u \<noteq> []) \<and> (URL_Host u \<noteq> [] \<or> Path u \<noteq> [])
              then ''//'' @ URL_Host u else [])
             @ (if Path u \<noteq> [] \<and> hd (Path u) \<noteq> CHR ''/'' \<and> URL_Host u \<noteq> [] then ''/'' else [])
             @ (if Scheme u = [] \<and> URL_Host u = []
                   \<and> CHR '':'' \<in> set (takeWhile (\<lambda>c. c \<noteq> CHR ''/'') (Path u))
                then ''./'' else [])
             @ Path u)
     @ (if RawQuery u \<noteq> [] then ''?'' @ RawQuery u else [])
     @ (if Fragment u \<noteq> [] then ''#'' @ Fragment u else [])"

section \<open>Response writers\<close>

text \<open>
  Every call that reaches the connection, the compressor's \<open>Close\<close>, the file server's
  entry and exit, and every line given to the access log are recorded, in order, in one
  trace; the claims about the order of effects are read from it.
\<close>

datatype outcome = Returned | Panicked string

datatype event =
    EvHeaderSet string string   \<comment> \<open>\<open>Header().Set(k, v)\<close> on the connection's header map\<close>
  | EvHeaderAdd string string   \<comment> \<open>\<open>Header().Add(k, v)\<close> on the connection's header map\<close>
  | EvWriteHeader int           \<comment> \<open>\<open>WriteHeader(s)\<close> received by the connection's writer\<close>
  | EvWrite string              \<comment> \<open>\<open>Write(b)\<close> received by the connection's writer\<close>
  | EvGzipClose                 \<comment> \<open>\<open>gz.Close()\<close> called\<close>
  | EvFilesCalled Request       \<comment> \<open>the file server's \<open>ServeHTTP\<close> entered with this request\<close>
  | EvFilesDone outcome         \<comment> \<open>the file server's \<open>ServeHTTP\<close> left\<close>
  | EvLogLine string            \<comment> \<open>a line written to the access log (the file or standard output)\<close>
  | EvLogWriteFailed string     \<comment> \<open>a \<open>Write\<close> of a line that the access log refused\<close>

text \<open>
  The \<open>http.ResponseWriter\<close> that the server hands to the outermost handler, the
  \<open>response\<close> of \<open>net/http\<close>, as far as the handlers of the server can tell:
  \<^item> \<open>Header()\<close> is the header map of the response;
  \<^item> \<open>WriteHeader(code)\<close> does nothing when the header has been written; otherwise it
    records the status and reads the declared length from the Content-Length header
    (\<open>strconv.ParseInt(cl, 10, 64)\<close>; a value that does not parse or is negative is
    deleted from the map);
  \<^item> \<open>Write(b)\<close> calls \<open>WriteHeader(200)\<close> first when the header has not been
    written; an empty slice then does nothing; a status without a body (1xx, 204, 304)
    refuses the slice (\<open>ErrBodyNotAllowed\<close>); the length of the slice is added to
    \<open>written\<close>, and a slice that takes \<open>written\<close> beyond the declared length is
    refused (\<open>ErrContentLength\<close>); for a \<open>HEAD\<close> request the slice is accepted and
    discarded; otherwise the slice joins the body of the response.
  \<open>body\<close> holds the bytes accepted for the body of the response and \<open>dropped\<close>
  counts the bytes of the slices that were refused or discarded. When the handler
  returns, the server sends the accepted bytes to the client; when it panics, the server
  closes the connection and the part of them still in its buffers is lost. Errors of the
  network are not modelled, and the status codes are taken as the ones \<open>WriteHeader\<close>
  accepts as the status of the response. \<open>written\<close> is an \<open>int64\<close> in Go and an
  unbounded \<open>int\<close> here.
\<close>

record response =
  req_method :: string
  header :: Header
  wroteHeader :: bool
  status :: int
  contentLength :: int
  written :: int
  body :: string
  dropped :: nat

definition new_response :: "string \<Rightarrow> response" where
  "new_response m = \<lparr>req_method = m, header = Map.empty, wroteHeader = False, status = 0,
                      contentLength = -1, written = 0, body = [], dropped = 0\<rparr>"

text \<open>\<open>strconv.ParseInt(s, 10, 64)\<close>: an optional sign and decimal digits, within 64 bits.\<close>

fun parse_digits :: "string \<Rightarrow> nat \<Rightarrow> nat option" where
  "parse_digits [] acc = Some acc"
| "parse_digits (c # cs) acc =
     (let n = (of_char c :: nat) in
      if 48 \<le> n \<and> n \<le> 57 then parse_digits cs (10 * acc + (n - 48)) else None)"

definition strconv_ParseInt :: "string \<Rightarrow> int option" where
  "strconv_ParseInt s =
     (let neg = (s \<noteq> [] \<and> hd s = CHR ''-'');
          ds = (if s \<noteq> [] \<and> (hd s = CHR ''-'' \<or> hd s = CHR ''+'') then tl s else s)
      in if ds = [] then None
         else (case parse_digits ds 0 of
                 None \<Rightarrow> None
               | Some n \<Rightarrow>
                   (let v = (if neg then - int n else int n)
                    in if - (2 ^ 63) \<le> v \<and> v < 2 ^ 63 then Some v else None)))"

definition response_WriteHeader :: "int \<Rightarrow> response \<Rightarrow> response" where
  "response_WriteHeader code c =
     (if wroteHeader c then c
      else (let c1 = c\<lparr>wroteHeader := True, status := code\<rparr>;
                cl = Header_Get (header c1) ''Content-Length''
            in if cl = [] then c1
               else (case strconv_ParseInt cl of
                       None \<Rightarrow> c1\<lparr>header := (header c1)(''Content-Length'' := None)\<rparr>
                     | Some v \<Rightarrow>
                         if 0 \<le> v then c1\<lparr>contentLength := v\<rparr>
                         else c1\<lparr>header := (header c1)(''Content-Length'' := None)\<rparr>)))"

definition bodyAllowedForStatus :: "int \<Rightarrow> bool" where
  "bodyAllowedForStatus st = (\<not> (100 \<le> st \<and> st \<le> 199) \<and> st \<noteq> 204 \<and> st \<noteq> 304)"

definition response_Write :: "string \<Rightarrow> response \<Rightarrow> response" where
  "response_Write b c =
     (let c1 = (if wroteHeader c then c else response_WriteHeader 200 c)
      in if b = [] then c1
         else if \<not> bodyAllowedForStatus (status c1) then c1\<lparr>dropped := dropped c1 + length b\<rparr>
         else (let c2 = c1\<lparr>written := written c1 + int (length b)\<rparr>
               in if contentLength c2 \<noteq> -1 \<and> contentLength c2 < written c2
                  then c2\<lparr>dropped := dropped c2 + length b\<rparr>
                  else if req_method c2 = ''HEAD'' then c2\<lparr>dropped := dropped c2 + length b\<rparr>
                  else c2\<lparr>body := body c2 @ b\<rparr>))"

text \<open>
  \<open>type Writer struct { http.ResponseWriter; Status int; Bytes int }\<close>, the recorder
  that \<open>Log.ServeHTTP\<close> allocates around the writer it is given. \<open>Log\<close> is the
  outermost handler of both listeners, so the embedded \<open>ResponseWriter\<close> is the
  connection's. \<open>Bytes\<close> is a Go \<open>int\<close>, of 32 or 64 bits with the platform:
  \<open>w.Bytes += len(b)\<close> wraps around in two's complement, which \<open>go_int\<close> writes
  out for an \<open>int\<close> of \<open>bits\<close> bits.
\<close>

definition go_int :: "nat \<Rightarrow> int \<Rightarrow> int" where
  "go_int bits x = (x + 2 ^ (bits - 1)) mod 2 ^ bits - 2 ^ (bits - 1)"

record Writer =
  Status :: int
  Bytes :: int

text \<open>
  \<open>compress/gzip\<close> is not part of the repository: the compressor is a parameter. A
  codec gives the state of a fresh compressor, what \<open>Write(p)\<close> does to the state and
  which slices it writes to the underlying writer, and which slices \<open>Close\<close> writes
  (what is buffered, and the trailer).
\<close>

record 'c codec =
  c_init :: 'c
  c_write :: "'c \<Rightarrow> string \<Rightarrow> 'c \<times> string list"
  c_close :: "'c \<Rightarrow> string list"

text \<open>
  Which \<open>http.ResponseWriter\<close> a handler holds: the connection's own writer, or the
  pointer \<open>&lw\<close> to the recorder of \<open>Log.ServeHTTP\<close>.
\<close>

datatype rw = Conn | LogWriter

text \<open>
  \<open>gzip.NewWriter(w)\<close>: a compressor bound to the writer \<open>w\<close>. \<open>Close\<close> on a closed
  compressor does nothing, and so does (in this model) a \<open>Write\<close> after \<open>Close\<close>,
  which the server never issues.
\<close>

record 'c gzip_Writer =
  gz_w :: rw
  gz_state :: 'c
  gz_closed :: bool

text \<open>
  \<open>type GzipWriter struct { gz io.Writer; http.ResponseWriter }\<close>: the two fields are
  references, \<open>gz\<close> to the compressor held in the state below and \<open>ResponseWriter\<close>
  to the writer the middleware was given.
\<close>

datatype sink =
    Plain rw        \<comment> \<open>an \<open>http.ResponseWriter\<close> used directly\<close>
  | GzipWriter rw   \<comment> \<open>\<open>GzipWriter{gz: gz, ResponseWriter: w}\<close>\<close>

text \<open>
  The state of one request: the size of an \<open>int\<close> on the platform, the objects the
  handlers share, the clock and the trace.
\<close>

record 'c world =
  int_size :: nat
  conn :: response
  lw :: Writer
  gz :: "'c gzip_Writer option"
  clock :: nat
  trace :: "event list"

definition emit :: "event \<Rightarrow> 'c world \<Rightarrow> 'c world" where
  "emit e w = w\<lparr>trace := trace w @ [e]\<rparr>"

subsection \<open>The connection's writer\<close>

definition conn_Header_Set :: "string \<Rightarrow> string \<Rightarrow> 'c world \<Rightarrow> 'c world" where
  "conn_Header_Set k v w =
     emit (EvHeaderSet k v) (w\<lparr>conn := (conn w)\<lparr>header := Header_Set (header (conn w)) k v\<rparr>\<rparr>)"

definition conn_Header_Add :: "string \<Rightarrow> string \<Rightarrow> 'c world \<Rightarrow> 'c world" where
  "conn_Header_Add k v w =
     emit (EvHeaderAdd k v) (w\<lparr>conn := (conn w)\<lparr>header := Header_Add (header (conn w)) k v\<rparr>\<rparr>)"

definition conn_WriteHeader :: "int \<Rightarrow> 'c world \<Rightarrow> 'c world" where
  "conn_WriteHeader s w = emit (EvWriteHeader s) (w\<lparr>conn := response_WriteHeader s (conn w)\<rparr>)"

definition conn_Write :: "string \<Rightarrow> 'c world \<Rightarrow> 'c world" where
  "conn_Write b w = emit (EvWrite b) (w\<lparr>conn := response_Write b (conn w)\<rparr>)"

subsection \<open>\<open>Writer\<close>: the recorder\<close>

text \<open>
  \<^verbatim>\<open>
  func (w *Writer) Write(b []byte) (int, error) {
      w.Bytes += len(b)
      return w.ResponseWriter.Write(b)
  }
  func (w *Writer) WriteHeader(s int) {
      w.Status = s
      w.ResponseWriter.WriteHeader(s)
  }
  \<close>
  \<open>Header()\<close> is promoted from the embedded writer.
\<close>

definition Writer_Write :: "string \<Rightarrow> 'c world \<Rightarrow> 'c world" where
  "Writer_Write b w =
     conn_Write b
       (w\<lparr>lw := (lw w)\<lparr>Bytes := go_int (int_size w) (Bytes (lw w) + int (length b))\<rparr>\<rparr>)"

definition Writer_WriteHeader :: "int \<Rightarrow> 'c world \<Rightarrow> 'c world" where
  "Writer_WriteHeader s w = conn_WriteHeader s (w\<lparr>lw := (lw w)\<lparr>Status := s\<rparr>\<rparr>)"

subsection \<open>Dispatch on the dynamic type of an \<open>http.ResponseWriter\<close>\<close>

fun rw_Write :: "rw \<Rightarrow> string \<Rightarrow> 'c world \<Rightarrow> 'c world" where
  "rw_Write Conn b w = conn_Write b w"
| "rw_Write LogWriter b w = Writer_Write b w"

fun rw_WriteHeader :: "rw \<Rightarrow> int \<Rightarrow> 'c world \<Rightarrow> 'c world" where
  "rw_WriteHeader Conn s w = conn_WriteHeader s w"
| "rw_WriteHeader LogWriter s w = Writer_WriteHeader s w"

subsection \<open>The compressor and \<open>GzipWriter\<close>\<close>

definition write_all :: "rw \<Rightarrow> string list \<Rightarrow> 'c world \<Rightarrow> 'c world" where
  "write_all t chunks w = fold (rw_Write t) chunks w"

definition gzip_NewWriter :: "'c codec \<Rightarrow> rw \<Rightarrow> 'c world \<Rightarrow> 'c world" where
  "gzip_NewWriter cd t w = w\<lparr>gz := Some \<lparr>gz_w = t, gz_state = c_init cd, gz_closed = False\<rparr>\<rparr>"

definition gzip_Write :: "'c codec \<Rightarrow> string \<Rightarrow> 'c world \<Rightarrow> 'c world" where
  "gzip_Write cd b w =
     (case gz w of
        None \<Rightarrow> w
      | Some g \<Rightarrow>
          if gz_closed g then w
          else (let (st, chunks) = c_write cd (gz_state g) b
                in write_all (gz_w g) chunks (w\<lparr>gz := Some (g\<lparr>gz_state := st\<rparr>)\<rparr>)))"

definition gzip_Close :: "'c codec \<Rightarrow> 'c world \<Rightarrow> 'c world" where
  "gzip_Close cd w =
     (case gz w of
        None \<Rightarrow> w
      | Some g \<Rightarrow>
          if gz_closed g then emit EvGzipClose w
          else write_all (gz_w g) (c_close cd (gz_state g))
                 (emit EvGzipClose (w\<lparr>gz := Some (g\<lparr>gz_closed := True\<rparr>)\<rparr>)))"

text \<open>
  \<^verbatim>\<open>
  func (w GzipWriter) Write(b []byte) (int, error) {
      return w.gz.Write(b)
  }
  \<close>
  \<open>Header()\<close> and \<open>WriteHeader\<close> are promoted from the embedded \<open>ResponseWriter\<close>;
  the header map of either writer is the connection's.
\<close>

fun sink_Write :: "'c codec \<Rightarrow> sink \<Rightarrow> string \<Rightarrow> 'c world \<Rightarrow> 'c world" where
  "sink_Write cd (Plain t) b w = rw_Write t b w"
| "sink_Write cd (GzipWriter t) b w = gzip_Write cd b w"

fun sink_WriteHeader :: "sink \<Rightarrow> int \<Rightarrow> 'c world \<Rightarrow> 'c world" where
  "sink_WriteHeader (Plain t) s w = rw_WriteHeader t s w"
| "sink_WriteHeader (GzipWriter t) s w = rw_WriteHeader t s w"

section \<open>Handlers\<close>

text \<open>
  An \<open>http.Handler\<close> is called with the writer it answers on and the request, and either
  returns or panics.
\<close>

type_synonym 'c handler = "sink \<Rightarrow> Request \<Rightarrow> 'c world \<Rightarrow> 'c world \<times> outcome"

subsection \<open>The file server\<close>

text \<open>
  \<open>http.FileServer(http.Dir(config.Httpd.Root))\<close> is outside the repository. It is
  modelled by what it does to its writer: for each request, a list of calls on the
  writer (and the time that passes), after which it returns or panics. The theorems
  hold for every such behaviour.
\<close>

datatype op =
    OpHeaderSet string string
  | OpHeaderAdd string string
  | OpWriteHeader int
  | OpWrite string
  | OpElapse nat

type_synonym file_server = "Request \<Rightarrow> op list \<times> outcome"

fun run_op :: "'c codec \<Rightarrow> sink \<Rightarrow> op \<Rightarrow> 'c world \<Rightarrow> 'c world" where
  "run_op cd sk (OpHeaderSet k v) w = conn_Header_Set k v w"
| "run_op cd sk (OpHeaderAdd k v) w = conn_Header_Add k v w"
| "run_op cd sk (OpWriteHeader s) w = sink_WriteHeader sk s w"
| "run_op cd sk (OpWrite b) w = sink_Write cd sk b w"
| "run_op cd sk (OpElapse n) w = w\<lparr>clock := clock w + n\<rparr>"

definition run_ops :: "'c codec \<Rightarrow> sink \<Rightarrow> op list \<Rightarrow> 'c world \<Rightarrow> 'c world" where
  "run_ops cd sk ops w = fold (run_op cd sk) ops w"

definition files_ServeHTTP :: "'c codec \<Rightarrow> file_server \<Rightarrow> 'c handler" where
  "files_ServeHTTP cd fs sk r w =
     (let (ops, out) = fs r
      in (emit (EvFilesDone out) (run_ops cd sk ops (emit (EvFilesCalled r) w)), out))"

subsection \<open>\<open>http.NotFound\<close> and \<open>http.Redirect\<close>\<close>

text \<open>
  \<open>http.NotFound(w, r)\<close> is \<open>http.Error(w, "404 page not found", 404)\<close>: two headers,
  the status, and the message with a newline. (Later versions of the library also
  delete the Content-Length header first; the claims do not depend on it.)
\<close>

definition http_NotFound :: "'c codec \<Rightarrow> sink \<Rightarrow> Request \<Rightarrow> 'c world \<Rightarrow> 'c world" where
  "http_NotFound cd sk r w =
     run_ops cd sk
       [OpHeaderSet ''Content-Type'' ''text/plain; charset=utf-8'',
        OpHeaderSet ''X-Content-Type-Options'' ''nosniff'',
        OpWriteHeader 404,
        OpWrite (''404 page not found'' @ [CHR 0x0A])] w"

definition hex_digit :: "nat \<Rightarrow> char" where
  "hex_digit n = (if n < 10 then char_of (48 + n) else char_of (87 + n))"

definition hexEscapeNonASCII :: "string \<Rightarrow> string" where
  "hexEscapeNonASCII s =
     concat (map (\<lambda>c. let n = (of_char c :: nat) in
                       if n < 128 then [c]
                       else [CHR ''%'', hex_digit (n div 16), hex_digit (n mod 16)]) s)"

definition htmlEscape :: "string \<Rightarrow> string" where
  "htmlEscape s =
     concat (map (\<lambda>c. if c = CHR ''&'' then ''&amp;''
                       else if c = CHR ''<'' then ''&lt;''
                       else if c = CHR ''>'' then ''&gt;''
                       else if c = CHR 0x22 then ''&#34;''
                       else if c = CHR 0x27 then ''&#39;''
                       else [c]) s)"

text \<open>
  \<open>http.Redirect(w, r, url, code)\<close> for a \<open>url\<close> that has a scheme (it is then used as
  it is) and the one code the server passes, whose status text is "Moved Permanently":
  the Location header; a Content-Type for GET and HEAD when none was set; the status; a
  short HTML body for GET.
\<close>

definition http_Redirect :: "'c codec \<Rightarrow> sink \<Rightarrow> Request \<Rightarrow> string \<Rightarrow> int \<Rightarrow> 'c world \<Rightarrow> 'c world" where
  "http_Redirect cd sk r url code w =
     (let hadCT = (header (conn w) ''Content-Type'' \<noteq> None);
          w1 = conn_Header_Set ''Location'' (hexEscapeNonASCII url) w;
          w2 = (if \<not> hadCT \<and> (Method r = ''GET'' \<or> Method r = ''HEAD'')
                then conn_Header_Set ''Content-Type'' ''text/html; charset=utf-8'' w1 else w1);
          w3 = sink_WriteHeader sk code w2
      in if \<not> hadCT \<and> Method r = ''GET''
         then sink_Write cd sk
                (''<a href='' @ [CHR 0x22] @ htmlEscape url @ [CHR 0x22] @ ''>''
                 @ ''Moved Permanently'' @ ''</a>.'' @ [CHR 0x0A, CHR 0x0A]) w3
         else w3)"

subsection \<open>Configuration\<close>

text \<open>
  \<open>config.Httpd\<close>: the fields of \<open>main.go\<close>. (The TLS variant has \<open>Http\<close>, \<open>Https\<close>
  and \<open>Ssl\<close> in place of \<open>Listen\<close>; the handlers read \<open>Hostname\<close> and \<open>Gzip\<close> only.)
\<close>

record Config =
  Listen :: string
  Hostname :: string
  Root :: string
  AccessLog :: string
  Gzip :: "string list"

subsection \<open>\<open>Handler\<close>: the host filter\<close>

text \<open>
  \<^verbatim>\<open>
  func (h Handler) ServeHTTP(w http.ResponseWriter, r *http.Request) {
      if strings.Index(r.Host, config.Httpd.Hostname) != -1 {
          h.files.ServeHTTP(w, r)
      } else {
          http.NotFound(w, r)
      }
  }
  \<close>
\<close>

definition Handler_ServeHTTP :: "'c codec \<Rightarrow> Config \<Rightarrow> file_server \<Rightarrow> 'c handler" where
  "Handler_ServeHTTP cd config files sk r w =
     (if strings_Index (Host r) (Hostname config) \<noteq> -1
      then files_ServeHTTP cd files sk r w
      else (http_NotFound cd sk r w, Returned))"

subsection \<open>\<open>GZip\<close>: conditional compression\<close>

text \<open>
  \<open>main\<close> builds the pattern of the middleware from the configured extensions:
  \<^verbatim>\<open>regexp.MustCompile("(?i)\\.(" + strings.Join(config.Httpd.Gzip, "|") + ")$")\<close>
  The text of the extensions goes into the pattern as it is, so it is read as regular
  expression syntax.
\<close>

definition gzip_pattern :: "string list \<Rightarrow> string" where
  "gzip_pattern exts = ''(?i)'' @ [CHR 0x5C] @ ''.('' @ strings_Join exts ''|'' @ '')$''"

text \<open>
  The \<open>regexp\<close> package is outside the repository and is a parameter: a library
  gives, for a pattern, the compiled expression, or nothing when the pattern is not
  valid (\<open>regexp.MustCompile\<close> then panics), and says whether a compiled expression
  matches a text (\<open>Regexp.Match\<close>).
\<close>

record 're regexp_lib =
  Compile :: "string \<Rightarrow> 're option"
  Match :: "'re \<Rightarrow> string \<Rightarrow> bool"

text \<open>
  \<^verbatim>\<open>
  func (h GZip) ServeHTTP(w http.ResponseWriter, r *http.Request) {
      if strings.Contains(r.Header.Get("Accept-Encoding"), "gzip") {
          uri := r.RequestURI
          if uri == "/" {
              uri += "index.html"
          }
          if h.Match([]byte(uri)) {
              w.Header().Set("Content-Encoding", "gzip")
              gz := gzip.NewWriter(w)
              defer gz.Close()
              h.Handler.ServeHTTP(GzipWriter{gz: gz, ResponseWriter: w}, r)
              return
          }
      }
      h.Handler.ServeHTTP(w, r)
  }
  \<close>
  The deferred \<open>gz.Close()\<close> runs when the inner handler has returned or panicked; a
  panic then goes on to the caller.
\<close>

definition match_uri :: "Request \<Rightarrow> string" where
  "match_uri r = (if RequestURI r = ''/'' then RequestURI r @ ''index.html'' else RequestURI r)"

definition GZip_ServeHTTP :: "'re regexp_lib \<Rightarrow> 'c codec \<Rightarrow> 're \<Rightarrow> 'c handler \<Rightarrow> rw \<Rightarrow> Request \<Rightarrow> 'c world \<Rightarrow> 'c world \<times> outcome" where
  "GZip_ServeHTTP lib cd re inner t r w =
     (if strings_Contains (Header_Get (ReqHeader r) ''Accept-Encoding'') ''gzip''
      then (if Match lib re (match_uri r)
            then (let w1 = conn_Header_Set ''Content-Encoding'' ''gzip'' w;
                      w2 = gzip_NewWriter cd t w1;
                      (w3, out) = inner (GzipWriter t) r w2
                  in (gzip_Close cd w3, out))
            else inner (Plain t) r w)
      else inner (Plain t) r w)"

subsection \<open>\<open>SslHandler\<close>: the redirect of the plain-HTTP listener (TLS variant)\<close>

text \<open>
  \<^verbatim>\<open>
  func (s SslHandler) ServeHTTP(w http.ResponseWriter, r *http.Request) {
      r.URL.Scheme = "https"
      w.Header().Add("Strict-Transport-Security", "max-age=604800")
      http.Redirect(w, r, r.URL.String(), http.StatusMovedPermanently)
  }
  \<close>
  The assignment changes the request's URL in place; no other handler reads it.
\<close>

definition SslHandler_ServeHTTP :: "'c codec \<Rightarrow> 'c handler" where
  "SslHandler_ServeHTTP cd sk r w =
     (let r' = r\<lparr>ReqURL := (ReqURL r)\<lparr>Scheme := ''https''\<rparr>\<rparr>;
          w1 = conn_Header_Add ''Strict-Transport-Security'' ''max-age=604800'' w
      in (http_Redirect cd sk r' (URL_String (ReqURL r')) 301 w1, Returned))"

subsection \<open>\<open>Log\<close>: the access log\<close>

text \<open>\<open>%d\<close> of \<open>fmt.Fprintf\<close>: an integer in decimal.\<close>

fun digits :: "nat \<Rightarrow> string" where
  "digits n = (if n < 10 then [char_of (48 + n)] else digits (n div 10) @ [char_of (48 + n mod 10)])"

definition fmt_d :: "int \<Rightarrow> string" where
  "fmt_d i = (if i < 0 then CHR ''-'' # digits (nat (- i)) else digits (nat i))"

text \<open>
  The line of
  \<^verbatim>\<open>fmt.Fprintf(l, "%s [%s] %s \"%s\" %d %d \"%s\" \"%s\"\n", ...)\<close>
\<close>

definition log_line :: "string \<Rightarrow> string \<Rightarrow> string \<Rightarrow> string \<Rightarrow> int \<Rightarrow> int \<Rightarrow> string \<Rightarrow> string \<Rightarrow> string" where
  "log_line addr time method uri st bytes referer agent =
     addr @ '' ['' @ time @ ''] '' @ method @ '' '' @ [CHR 0x22] @ uri @ [CHR 0x22] @ '' ''
     @ fmt_d st @ '' '' @ fmt_d bytes @ '' '' @ [CHR 0x22] @ referer @ [CHR 0x22]
     @ '' '' @ [CHR 0x22] @ agent @ [CHR 0x22] @ [CHR 0x0A]"

text \<open>
  \<^verbatim>\<open>
  func (l Log) ServeHTTP(w http.ResponseWriter, r *http.Request) {
      lw := Writer{ResponseWriter: w}
      defer func() {
          ... addr as in log_addr ...
          fmt.Fprintf(l, ..., addr, time.Now().Format("02/Jan/2006 15:04:05 -0700"),
              r.Method, r.RequestURI, lw.Status, lw.Bytes,
              r.Header.Get("referer"), r.UserAgent())
      }()
      l.Handler.ServeHTTP(&lw, r)
  }
  \<close>
  The deferred function runs when the inner handler has returned or panicked, and a
  panic then goes on to the caller. \<open>time.Now()\<close> reads the clock of the state,
  and \<open>lw.Status\<close> and \<open>lw.Bytes\<close> the recorder, when the deferred function runs;
  \<open>layout\<close> stands for \<open>Time.Format\<close> with the layout of the code. The line goes
  to the \<open>io.Writer\<close> embedded in \<open>Log\<close> in one \<open>Write\<close>, whose error
  \<open>Fprintf\<close> returns and the deferred function ignores.
\<close>

text \<open>
  The writer of the access log is the file that \<open>main\<close> opened, or standard output.
  \<open>os.OpenFile(name, flag, perm)\<close> opens the file for reading only unless \<open>flag\<close>
  has \<open>O_WRONLY\<close> or \<open>O_RDWR\<close> (\<open>O_RDONLY\<close> is 0), and a \<open>Write\<close> to a file
  opened for reading only fails and writes nothing.
\<close>

datatype open_flag = O_RDONLY | O_WRONLY | O_RDWR | O_APPEND | O_CREATE

record File =
  file_name :: string
  file_writable :: bool

definition os_OpenFile :: "(string \<Rightarrow> bool) \<Rightarrow> string \<Rightarrow> open_flag list \<Rightarrow> File option" where
  "os_OpenFile can_open name flags =
     (if can_open name
      then Some \<lparr>file_name = name,
                 file_writable = (O_WRONLY \<in> set flags \<or> O_RDWR \<in> set flags)\<rparr>
      else None)"

datatype io_Writer = FileWriter File | Stdout

definition io_Write :: "io_Writer \<Rightarrow> string \<Rightarrow> 'c world \<Rightarrow> 'c world" where
  "io_Write l line w =
     (case l of
        Stdout \<Rightarrow> emit (EvLogLine line) w
      | FileWriter f \<Rightarrow>
          if file_writable f then emit (EvLogLine line) w else emit (EvLogWriteFailed line) w)"

definition access_line :: "(nat \<Rightarrow> string) \<Rightarrow> Request \<Rightarrow> 'c world \<Rightarrow> string" where
  "access_line layout r w =
     log_line (log_addr (RemoteAddr r)) (layout (clock w)) (Method r) (RequestURI r)
       (Status (lw w)) (Bytes (lw w))
       (Header_Get (ReqHeader r) ''referer'') (UserAgent r)"

definition Log_ServeHTTP :: "io_Writer \<Rightarrow> (nat \<Rightarrow> string) \<Rightarrow> (rw \<Rightarrow> Request \<Rightarrow> 'c world \<Rightarrow> 'c world \<times> outcome) \<Rightarrow> Request \<Rightarrow> 'c world \<Rightarrow> 'c world \<times> outcome" where
  "Log_ServeHTTP l layout inner r w =
     (let w0 = w\<lparr>lw := \<lparr>Status = 0, Bytes = 0\<rparr>\<rparr>;
          (w1, out) = inner LogWriter r w0
      in (io_Write l (access_line layout r w1) w1, out))"

section \<open>Start-up and wiring\<close>

text \<open>
  \<^verbatim>\<open>
  var config *Config

  func init() {
      if f, err := os.OpenFile("config.json", 0, 0); err == nil {
          config = new(Config)
          if err := json.NewDecoder(f).Decode(config); err != nil {
              panic(err)
          }
      }
  }
  \<close>
  The file system is a map from names to contents (no entry: \<open>OpenFile\<close> fails), and
  the JSON decoder a function that fails with \<open>None\<close>. The result of \<open>init\<close> is
  the value of the package variable \<open>config\<close> (\<open>None\<close> for \<open>nil\<close>), or the panic.
\<close>

datatype panic =
    DecodeError             \<comment> \<open>\<open>panic(err)\<close> of \<open>init\<close>: the configuration did not decode\<close>
  | NilPointerDereference   \<comment> \<open>the run-time panic of reading a field through a nil pointer\<close>
  | RegexpPanic             \<comment> \<open>the panic of \<open>regexp.MustCompile\<close> on a pattern that is not valid\<close>

definition init :: "(string \<rightharpoonup> string) \<Rightarrow> (string \<Rightarrow> Config option) \<Rightarrow> panic + Config option" where
  "init files decode =
     (case files ''config.json'' of
        None \<Rightarrow> Inr None
      | Some f \<Rightarrow> (case decode f of None \<Rightarrow> Inl DecodeError | Some c \<Rightarrow> Inr (Some c)))"

text \<open>
  \<open>main\<close> up to the call of \<open>http.ListenAndServe\<close>:
  \<^verbatim>\<open>
  if f, err := os.OpenFile(config.Httpd.AccessLog, os.O_CREATE|os.O_APPEND, 0); err == nil {
      writer = f
  } else {
      writer = os.Stdout
  }
  http.ListenAndServe(config.Httpd.Listen, Log{Writer: writer, ...,
      Handler: GZip{regexp.MustCompile(...), Handler{http.FileServer(...)}}})
  \<close>
  Its first statement reads \<open>config.Httpd.AccessLog\<close>, through the pointer
  \<open>config\<close>. The result is what the server is started with: the address, the writer
  of the access log, the compiled pattern of the \<open>GZip\<close> middleware and the
  configuration the handlers read.
\<close>

record 're server =
  srv_addr :: string
  srv_log :: io_Writer
  srv_regexp :: 're
  srv_config :: Config

definition main :: "(string \<Rightarrow> bool) \<Rightarrow> 're regexp_lib \<Rightarrow> Config option \<Rightarrow> panic + 're server" where
  "main can_open lib config =
     (case config of
        None \<Rightarrow> Inl NilPointerDereference
      | Some c \<Rightarrow>
          (let writer = (case os_OpenFile can_open (AccessLog c) [O_CREATE, O_APPEND] of
                           Some f \<Rightarrow> FileWriter f
                         | None \<Rightarrow> Stdout)
           in case Compile lib (gzip_pattern (Gzip c)) of
                None \<Rightarrow> Inl RegexpPanic
              | Some re \<Rightarrow>
                  Inr \<lparr>srv_addr = Listen c, srv_log = writer, srv_regexp = re, srv_config = c\<rparr>))"

definition program :: "(string \<rightharpoonup> string) \<Rightarrow> (string \<Rightarrow> Config option) \<Rightarrow> (string \<Rightarrow> bool) \<Rightarrow> 're regexp_lib \<Rightarrow> panic + 're server" where
  "program files decode can_open lib =
     (case init files decode of
        Inl p \<Rightarrow> Inl p
      | Inr config \<Rightarrow> main can_open lib config)"

text \<open>
  The handler of the main listener,
  \<open>Log{Writer: writer, Handler: GZip{regexp, Handler{http.FileServer(...)}}}\<close>, and the
  handler of the plain-HTTP listener of the TLS variant,
  \<open>Log{Writer: writer, Handler: SslHandler{}}\<close>.
\<close>

definition main_handler :: "'re regexp_lib \<Rightarrow> 'c codec \<Rightarrow> (nat \<Rightarrow> string) \<Rightarrow> 're server \<Rightarrow> file_server \<Rightarrow> Request \<Rightarrow> 'c world \<Rightarrow> 'c world \<times> outcome" where
  "main_handler lib cd layout srv files =
     Log_ServeHTTP (srv_log srv) layout
       (GZip_ServeHTTP lib cd (srv_regexp srv) (Handler_ServeHTTP cd (srv_config srv) files))"

definition redirect_handler :: "io_Writer \<Rightarrow> 'c codec \<Rightarrow> (nat \<Rightarrow> string) \<Rightarrow> Request \<Rightarrow> 'c world \<Rightarrow> 'c world \<times> outcome" where
  "redirect_handler l cd layout =
     Log_ServeHTTP l layout (\<lambda>t. SslHandler_ServeHTTP cd (Plain t))"

text \<open>
  The state in which the server calls its handler for a request of the given method, on a
  platform with an \<open>int\<close> of \<open>bits\<close> bits: nothing written yet.
\<close>

definition new_world :: "nat \<Rightarrow> string \<Rightarrow> nat \<Rightarrow> 'c world" where
  "new_world bits m now = \<lparr>int_size = bits, conn = new_response m,
                           lw = \<lparr>Status = 0, Bytes = 0\<rparr>, gz = None, clock = now, trace = []\<rparr>"

section \<open>Auxiliary definitions for the statements\<close>

text \<open>The status codes a behaviour passes to \<open>WriteHeader\<close>, in order.\<close>

fun header_calls :: "op list \<Rightarrow> int list" where
  "header_calls [] = []"
| "header_calls (OpWriteHeader s # ops) = s # header_calls ops"
| "header_calls (_ # ops) = header_calls ops"

text \<open>
  A codec for the examples: it writes nothing until \<open>Close\<close>, which writes a header,
  what was buffered, and a trailer.
\<close>

definition buffering_codec :: "string codec" where
  "buffering_codec = \<lparr>c_init = [], c_write = (\<lambda>st b. (st @ b, [])),
                       c_close = (\<lambda>st. [''gz'', st, ''end''])\<rparr>"

text \<open>
  The request the server builds for an origin-form request line \<open>method target\<close>:
  \<open>net/http\<close> documents that the URL of a server request is parsed from the request
  target, and that for most requests the fields other than \<open>Path\<close> and \<open>RawQuery\<close>
  are empty.
\<close>

definition server_request :: "string \<Rightarrow> string \<Rightarrow> string \<Rightarrow> string \<Rightarrow> Header \<Rightarrow> Request" where
  "server_request method target host remote hdr =
     \<lparr>Method = method, RequestURI = target, Host = host, RemoteAddr = remote, ReqHeader = hdr,
      ReqURL = \<lparr>Scheme = [], Opaque = [], URL_Host = [],
                Path = takeWhile (\<lambda>c. c \<noteq> CHR ''?'') target,
                RawQuery = drop 1 (dropWhile (\<lambda>c. c \<noteq> CHR ''?'') target),
                Fragment = []\<rparr>\<rparr>"

text \<open>The writer the compressor of the state is bound to, if there is a compressor.\<close>

definition gz_target :: "'c world \<Rightarrow> rw option" where
  "gz_target w = map_option gz_w (gz w)"

text \<open>
  The bytes of the slices the connection was given: those it accepted for the body and
  those it refused or discarded.
\<close>

definition taken :: "'c world \<Rightarrow> nat" where
  "taken w = length (body (conn w)) + dropped (conn w)"

text \<open>The events other than byte writes, and the calls of a behaviour other than writes.\<close>

fun not_write :: "event \<Rightarrow> bool" where
  "not_write (EvWrite b) = False"
| "not_write _ = True"

fun calls_of :: "op \<Rightarrow> event list" where
  "calls_of (OpHeaderSet k v) = [EvHeaderSet k v]"
| "calls_of (OpHeaderAdd k v) = [EvHeaderAdd k v]"
| "calls_of (OpWriteHeader s) = [EvWriteHeader s]"
| "calls_of (OpWrite b) = []"
| "calls_of (OpElapse n) = []"




text \<open>Kinds of events.\<close>

fun conn_event :: "event \<Rightarrow> bool" where
  "conn_event (EvHeaderSet k v) = True"
| "conn_event (EvHeaderAdd k v) = True"
| "conn_event (EvWriteHeader s) = True"
| "conn_event (EvWrite b) = True"
| "conn_event _ = False"

fun is_log_line :: "event \<Rightarrow> bool" where
  "is_log_line (EvLogLine l) = True"
| "is_log_line _ = False"

text \<open>The lines written to the access log, in order.\<close>

fun log_lines :: "event list \<Rightarrow> string list" where
  "log_lines [] = []"
| "log_lines (EvLogLine l # es) = l # log_lines es"
| "log_lines (_ # es) = log_lines es"

fun is_files_call :: "event \<Rightarrow> bool" where
  "is_files_call (EvFilesCalled r) = True"
| "is_files_call _ = False"

fun is_close :: "event \<Rightarrow> bool" where
  "is_close EvGzipClose = True"
| "is_close _ = False"

text \<open>The calls of \<open>http.NotFound\<close> on its writer, and of \<open>Handler.ServeHTTP\<close>.\<close>

definition NotFound_ops :: "op list" where
  "NotFound_ops =
     [OpHeaderSet ''Content-Type'' ''text/plain; charset=utf-8'',
      OpHeaderSet ''X-Content-Type-Options'' ''nosniff'',
      OpWriteHeader 404,
      OpWrite (''404 page not found'' @ [CHR 0x0A])]"

definition Handler_ops :: "Config \<Rightarrow> file_server \<Rightarrow> Request \<Rightarrow> op list" where
  "Handler_ops config files r =
     (if strings_Index (Host r) (Hostname config) \<noteq> -1 then fst (files r) else NotFound_ops)"

text \<open>The test of \<open>GZip.ServeHTTP\<close>: the client accepts gzip and the pattern matches.\<close>

definition gzip_applies :: "'re regexp_lib \<Rightarrow> 're \<Rightarrow> Request \<Rightarrow> bool" where
  "gzip_applies lib re r =
     (strings_Contains (Header_Get (ReqHeader r) ''Accept-Encoding'') ''gzip''
      \<and> Match lib re (match_uri r))"


text \<open>Whether a \<open>Write\<close> to the writer of the access log succeeds.\<close>

definition writable :: "io_Writer \<Rightarrow> bool" where
  "writable l = (case l of Stdout \<Rightarrow> True | FileWriter f \<Rightarrow> file_writable f)"

text \<open>
  A regexp library for the examples. It compiles the patterns
  \<open>(?i)\.(a1|...|an)$\<close> whose alternatives are made of letters and digits, and no
  others; such a pattern matches a text that ends, letter case aside, with a dot and one
  of the alternatives, which for ASCII text is what Go's \<open>regexp\<close> does with it.
\<close>

fun split_on :: "char \<Rightarrow> string \<Rightarrow> string list" where
  "split_on d [] = [[]]"
| "split_on d (c # cs) =
     (if c = d then [] # split_on d cs
      else (case split_on d cs of [] \<Rightarrow> [[c]] | x # xs \<Rightarrow> (c # x) # xs))"

definition alnum_or_bar :: "char \<Rightarrow> bool" where
  "alnum_or_bar c =
     (let n = (of_char c :: nat) in
      (48 \<le> n \<and> n \<le> 57) \<or> (65 \<le> n \<and> n \<le> 90) \<or> (97 \<le> n \<and> n \<le> 122) \<or> c = CHR ''|'')"

definition literal_Compile :: "string \<Rightarrow> string list option" where
  "literal_Compile p =
     (let pre = ''(?i)'' @ [CHR 0x5C] @ ''.(''; post = '')$'';
          mid = take (length p - length pre - length post) (drop (length pre) p)
      in if p = pre @ mid @ post \<and> list_all alnum_or_bar mid
         then Some (split_on CHR ''|'' mid) else None)"

definition literal_regexp :: "string list regexp_lib" where
  "literal_regexp =
     \<lparr>Compile = literal_Compile,
      Match = (\<lambda>alts b. list_ex (\<lambda>a. suffix (map to_lower (CHR ''.'' # a)) (map to_lower b)) alts)\<rparr>"

text \<open>
  Values for the examples: a configuration, the servers \<open>main\<close> starts for it when
  the log file cannot and can be opened, a file server that answers with a page, one
  that panics after a partial answer, one that lists a directory (it sets a header and
  writes, and does not call \<open>WriteHeader\<close>), and the layout of the time stamp.
\<close>

definition example_config :: Config where
  "example_config = \<lparr>Listen = '':8080'', Hostname = ''example.com'', Root = ''/srv/www'',
                      AccessLog = ''access.log'', Gzip = [''html'', ''css'', ''js'']\<rparr>"

definition stdout_server :: "string list server" where
  "stdout_server = \<lparr>srv_addr = '':8080'', srv_log = Stdout,
                     srv_regexp = [''html'', ''css'', ''js''], srv_config = example_config\<rparr>"

definition file_server_log :: "string list server" where
  "file_server_log =
     \<lparr>srv_addr = '':8080'',
      srv_log = FileWriter \<lparr>file_name = ''access.log'', file_writable = False\<rparr>,
      srv_regexp = [''html'', ''css'', ''js''], srv_config = example_config\<rparr>"

definition listing_server :: file_server where
  "listing_server r = ([OpHeaderSet ''Content-Type'' ''text/html; charset=utf-8'',
                        OpWrite ''<pre>'', OpWrite ''</pre>''], Returned)"

definition page_server :: file_server where
  "page_server r = ([OpHeaderSet ''Content-Type'' ''text/html'', OpWriteHeader 200,
                     OpWrite ''<p>hello</p>'', OpElapse 3], Returned)"

definition panicking_server :: file_server where
  "panicking_server r = ([OpWriteHeader 200, OpWrite ''part'', OpElapse 2], Panicked ''boom'')"

definition example_request :: Request where
  "example_request =
     server_request ''GET'' ''/index.html'' ''example.com'' ''203.0.113.5:51000''
       [''Accept-Encoding'' \<mapsto> [''gzip, deflate'']]"

definition example_layout :: "nat \<Rightarrow> string" where
  "example_layout t = ''t'' @ digits t"

text \<open>A request for a directory, from a client that does not accept gzip.\<close>

definition listing_request :: Request where
  "listing_request =
     server_request ''GET'' ''/pub/'' ''example.com'' ''203.0.113.5:51000'' Map.empty"

text \<open>A request for a host the server is not configured for.\<close>

definition other_host_request :: Request where
  "other_host_request =
     server_request ''GET'' ''/index.html'' ''elsewhere.org'' ''203.0.113.5:51000''
       [''Accept-Encoding'' \<mapsto> [''gzip, deflate'']]"







section \<open>Properties of the string helpers\<close>

lemma LastIndex_absent: "c \<notin> set s \<Longrightarrow> strings_LastIndex s [c] = -1"
  by (induction s) auto

lemma LastIndex_nonneg_iff: "0 \<le> strings_LastIndex s [c] \<longleftrightarrow> c \<in> set s"
  by (induction s) (auto simp: Let_def)

lemma LastIndex_last: "c \<notin> set b \<Longrightarrow> strings_LastIndex (a @ c # b) [c] = int (length a)"
  by (induction a) (auto simp: LastIndex_absent Let_def)

lemma Trim_id:
  assumes "s = [] \<or> (hd s \<notin> set cs \<and> last s \<notin> set cs)"
  shows "strings_Trim s cs = s"
proof (cases "s = []")
  case True
  then show ?thesis
    by (simp add: strings_Trim_def strings_TrimLeft_def strings_TrimRight_def)
next
  case False
  with assms have h: "hd s \<notin> set cs" and l: "last s \<notin> set cs" by auto
  from False h have left: "dropWhile (\<lambda>c. c \<in> set cs) s = s"
    by (cases s) auto
  from False l have "hd (rev s) \<notin> set cs" by (simp add: hd_rev)
  with False have right: "dropWhile (\<lambda>c. c \<in> set cs) (rev s) = rev s"
    by (cases "rev s") auto
  show ?thesis
    by (simp add: strings_Trim_def strings_TrimLeft_def strings_TrimRight_def left right)
qed

section \<open>The logged remote address\<close>

text \<open>
  Claim C7, as the code has it. The address is cut at its last colon when that colon is
  not the first byte (\<open>idx > 0\<close>); an address whose only colon is the first byte, and
  an address without a colon, are taken whole. Then the leading and the trailing
  brackets are stripped, so an address with no colon and no bracket at either end is
  logged unchanged. \<open>203.0.113.5:51000\<close> is logged as \<open>203.0.113.5\<close> and
  \<open>[::1]:9999\<close> as \<open>::1\<close>.
\<close>

theorem log_addr_normalisation:
  "(CHR '':'' \<notin> set b \<and> a \<noteq> [] \<longrightarrow> log_addr (a @ '':'' @ b) = strings_Trim a ''[]'')
   \<and> (CHR '':'' \<notin> set b \<longrightarrow> log_addr ('':'' @ b) = strings_Trim ('':'' @ b) ''[]'')
   \<and> (CHR '':'' \<notin> set s \<longrightarrow> log_addr s = strings_Trim s ''[]'')
   \<and> (CHR '':'' \<notin> set s \<and> (s = [] \<or> (hd s \<notin> set ''[]'' \<and> last s \<notin> set ''[]'')) \<longrightarrow> log_addr s = s)
   \<and> log_addr ''203.0.113.5:51000'' = ''203.0.113.5''
   \<and> log_addr ''[::1]:9999'' = ''::1''"
proof -
  have 1: "log_addr (a @ '':'' @ b) = strings_Trim a ''[]''" if "CHR '':'' \<notin> set b" "a \<noteq> []"
    using that LastIndex_last[of "CHR '':''" b a] by (simp add: log_addr_def)
  have 2: "log_addr ('':'' @ b) = strings_Trim ('':'' @ b) ''[]''" if "CHR '':'' \<notin> set b"
    using that LastIndex_last[of "CHR '':''" b "[]"] by (simp add: log_addr_def)
  have 3: "log_addr s = strings_Trim s ''[]''" if "CHR '':'' \<notin> set s"
    using that LastIndex_absent[of "CHR '':''" s] by (simp add: log_addr_def)
  have 4: "log_addr s = s" if "CHR '':'' \<notin> set s" "s = [] \<or> (hd s \<notin> set ''[]'' \<and> last s \<notin> set ''[]'')"
    using 3[OF that(1)] Trim_id[OF that(2)] by simp
  have 5: "log_addr ''203.0.113.5:51000'' = ''203.0.113.5''" by code_simp
  have 6: "log_addr ''[::1]:9999'' = ''::1''" by code_simp
  show ?thesis using 1 2 3 4 5 6 by blast
qed

theorem log_addr_normalisation_witness:
  "log_addr (''[2001:db8::1]'' @ '':'' @ ''443'') = ''2001:db8::1''
   \<and> log_addr ('':'' @ ''8080'') = '':8080''
   \<and> log_addr ''localhost'' = ''localhost''"
  using log_addr_normalisation[of "''443''" "''[2001:db8::1]''" "''localhost''"]
        log_addr_normalisation[of "''8080''" "''x''" "''y''"]
  by (simp add: strings_Trim_def strings_TrimLeft_def strings_TrimRight_def)

text \<open>
  Cutting at the last colon whenever there is one would log \<open>:8080\<close> as the empty
  string; the code logs it whole. And an address without a colon is not always logged
  unchanged: its brackets are stripped.
\<close>

theorem log_addr_leading_colon_counterexample:
  "CHR '':'' \<in> set '':8080''
   \<and> log_addr '':8080'' \<noteq> strings_Trim (take (nat (strings_LastIndex '':8080'' '':'')) '':8080'') ''[]''
   \<and> CHR '':'' \<notin> set ''[abc]'' \<and> log_addr ''[abc]'' \<noteq> ''[abc]''"
  by code_simp

section \<open>Start-up without a configuration file\<close>

text \<open>
  Claim C10. When \<open>config.json\<close> cannot be opened, \<open>init\<close> ends normally and leaves
  \<open>config\<close> nil, and the program then panics in \<open>main\<close> on the nil pointer: the
  failure is not reported as a configuration error.
\<close>

theorem init_missing_config_nil_panic:
  "files ''config.json'' = None \<Longrightarrow>
     init files decode = Inr None
     \<and> program files decode can_open lib = Inl NilPointerDereference"
  by (simp add: init_def program_def main_def)

theorem init_missing_config_nil_panic_witness:
  "Map.empty ''config.json'' = None
   \<and> init Map.empty (\<lambda>_. None) = Inr None
   \<and> program Map.empty (\<lambda>_. None) (\<lambda>_. True) literal_regexp = Inl NilPointerDereference"
  using init_missing_config_nil_panic[of Map.empty "\<lambda>_. None" "\<lambda>_. True" literal_regexp]
  by simp


section \<open>Properties of the writers\<close>

subsection \<open>Wrap-around of a Go \<open>int\<close>\<close>



subsection \<open>What each call changes\<close>

lemma emit_fields [simp]:
  "conn (emit e w) = conn w" "lw (emit e w) = lw w" "gz (emit e w) = gz w"
  "clock (emit e w) = clock w" "trace (emit e w) = trace w @ [e]"
  "int_size (emit e w) = int_size w"
  by (simp_all add: emit_def)

lemma conn_Write_fields [simp]:
  "lw (conn_Write b w) = lw w" "gz (conn_Write b w) = gz w" "clock (conn_Write b w) = clock w"
  "trace (conn_Write b w) = trace w @ [EvWrite b]"
  "conn (conn_Write b w) = response_Write b (conn w)"
  "int_size (conn_Write b w) = int_size w"
  by (simp_all add: conn_Write_def)

lemma conn_WriteHeader_fields [simp]:
  "lw (conn_WriteHeader s w) = lw w" "gz (conn_WriteHeader s w) = gz w"
  "clock (conn_WriteHeader s w) = clock w"
  "trace (conn_WriteHeader s w) = trace w @ [EvWriteHeader s]"
  "conn (conn_WriteHeader s w) = response_WriteHeader s (conn w)"
  "int_size (conn_WriteHeader s w) = int_size w"
  by (simp_all add: conn_WriteHeader_def)

lemma conn_Header_Set_fields [simp]:
  "lw (conn_Header_Set k v w) = lw w" "gz (conn_Header_Set k v w) = gz w"
  "clock (conn_Header_Set k v w) = clock w"
  "trace (conn_Header_Set k v w) = trace w @ [EvHeaderSet k v]"
  "conn (conn_Header_Set k v w) = (conn w)\<lparr>header := Header_Set (header (conn w)) k v\<rparr>"
  "int_size (conn_Header_Set k v w) = int_size w"
  by (simp_all add: conn_Header_Set_def)

lemma conn_Header_Add_fields [simp]:
  "lw (conn_Header_Add k v w) = lw w" "gz (conn_Header_Add k v w) = gz w"
  "clock (conn_Header_Add k v w) = clock w"
  "trace (conn_Header_Add k v w) = trace w @ [EvHeaderAdd k v]"
  "conn (conn_Header_Add k v w) = (conn w)\<lparr>header := Header_Add (header (conn w)) k v\<rparr>"
  "int_size (conn_Header_Add k v w) = int_size w"
  by (simp_all add: conn_Header_Add_def)

lemma Writer_Write_fields [simp]:
  "lw (Writer_Write b w)
     = (lw w)\<lparr>Bytes := go_int (int_size w) (Bytes (lw w) + int (length b))\<rparr>"
  "gz (Writer_Write b w) = gz w" "clock (Writer_Write b w) = clock w"
  "trace (Writer_Write b w) = trace w @ [EvWrite b]"
  "conn (Writer_Write b w) = response_Write b (conn w)"
  "int_size (Writer_Write b w) = int_size w"
  by (simp_all add: Writer_Write_def)

lemma Writer_WriteHeader_fields [simp]:
  "lw (Writer_WriteHeader s w) = (lw w)\<lparr>Status := s\<rparr>"
  "gz (Writer_WriteHeader s w) = gz w" "clock (Writer_WriteHeader s w) = clock w"
  "trace (Writer_WriteHeader s w) = trace w @ [EvWriteHeader s]"
  "conn (Writer_WriteHeader s w) = response_WriteHeader s (conn w)"
  "int_size (Writer_WriteHeader s w) = int_size w"
  by (simp_all add: Writer_WriteHeader_def)

text \<open>Every byte of a slice given to the connection is accepted or dropped.\<close>

lemma response_WriteHeader_body [simp]:
  "body (response_WriteHeader s c) = body c" "dropped (response_WriteHeader s c) = dropped c"
  by (simp_all add: response_WriteHeader_def Let_def split: option.splits)

lemma response_Write_taken:
  "length (body (response_Write b c)) + dropped (response_Write b c)
     = length (body c) + dropped c + length b"
  by (simp add: response_Write_def Let_def)

lemma taken_prims [simp]:
  "taken (conn_Header_Set k v w) = taken w"
  "taken (conn_Header_Add k v w) = taken w"
  "taken (conn_WriteHeader s w) = taken w"
  "taken (Writer_WriteHeader s w) = taken w"
  "taken (conn_Write b w) = taken w + length b"
  "taken (Writer_Write b w) = taken w + length b"
  "taken (emit e w) = taken w"
  by (simp_all add: taken_def response_Write_taken)

lemma taken_updates [simp]:
  "taken (w\<lparr>clock := n\<rparr>) = taken w" "taken (w\<lparr>gz := x\<rparr>) = taken w"
  "taken (w\<lparr>lw := y\<rparr>) = taken w"
  by (simp_all add: taken_def)

text \<open>What a list of slices written to a writer does to each part of the state.\<close>

lemma write_all_Nil [simp]: "write_all t [] w = w"
  by (simp add: write_all_def)

lemma write_all_Cons [simp]: "write_all t (c # cs) w = write_all t cs (rw_Write t c w)"
  by (simp add: write_all_def)

lemma write_all_frame [simp]:
  "gz (write_all t cs w) = gz w" "clock (write_all t cs w) = clock w"
  "Status (lw (write_all t cs w)) = Status (lw w)"
  "trace (write_all t cs w) = trace w @ map EvWrite cs"
  "int_size (write_all t cs w) = int_size w"
  "taken (write_all t cs w) = taken w + length (concat cs)"
  by (induction cs arbitrary: w; cases t; simp)+


subsection \<open>The compressor\<close>

lemma gzip_NewWriter_fields [simp]:
  "conn (gzip_NewWriter cd t w) = conn w" "lw (gzip_NewWriter cd t w) = lw w"
  "clock (gzip_NewWriter cd t w) = clock w" "trace (gzip_NewWriter cd t w) = trace w"
  "int_size (gzip_NewWriter cd t w) = int_size w" "taken (gzip_NewWriter cd t w) = taken w"
  "gz (gzip_NewWriter cd t w) = Some \<lparr>gz_w = t, gz_state = c_init cd, gz_closed = False\<rparr>"
  by (simp_all add: gzip_NewWriter_def taken_def)

lemma gzip_Write_frame [simp]:
  "clock (gzip_Write cd b w) = clock w"
  "int_size (gzip_Write cd b w) = int_size w"
  "Status (lw (gzip_Write cd b w)) = Status (lw w)"
  "gz_target (gzip_Write cd b w) = gz_target w"
  by (auto simp: gzip_Write_def gz_target_def split: option.splits prod.splits)

lemma gzip_Write_trace:
  "\<exists>cs. trace (gzip_Write cd b w) = trace w @ map EvWrite cs"
proof (cases "gz w")
  case None
  then have "trace (gzip_Write cd b w) = trace w @ map EvWrite []"
    by (simp add: gzip_Write_def)
  then show ?thesis by blast
next
  case (Some g)
  show ?thesis
  proof (cases "gz_closed g")
    case True
    with Some have "trace (gzip_Write cd b w) = trace w @ map EvWrite []"
      by (simp add: gzip_Write_def)
    then show ?thesis by blast
  next
    case False
    with Some show ?thesis
      by (auto simp: gzip_Write_def split: prod.splits)
  qed
qed

lemma gzip_Close_frame [simp]:
  "clock (gzip_Close cd w) = clock w"
  "int_size (gzip_Close cd w) = int_size w"
  "Status (lw (gzip_Close cd w)) = Status (lw w)"
  "gz_target (gzip_Close cd w) = gz_target w"
  by (auto simp: gzip_Close_def gz_target_def split: option.splits)

lemma gzip_Close_trace:
  "gz w = Some g \<Longrightarrow>
   trace (gzip_Close cd w)
     = trace w @ EvGzipClose # map EvWrite (if gz_closed g then [] else c_close cd (gz_state g))"
  by (simp add: gzip_Close_def)

lemma gzip_Close_closed:
  "gz w = Some g \<Longrightarrow> \<exists>g'. gz (gzip_Close cd w) = Some g' \<and> gz_closed g'"
  by (simp add: gzip_Close_def)



subsection \<open>Behaviours run against a writer\<close>

lemma run_ops_Nil [simp]: "run_ops cd sk [] w = w"
  by (simp add: run_ops_def)

lemma run_ops_Cons [simp]: "run_ops cd sk (x # xs) w = run_ops cd sk xs (run_op cd sk x w)"
  by (simp add: run_ops_def)

lemma run_ops_append [simp]:
  "run_ops cd sk (xs @ ys) w = run_ops cd sk ys (run_ops cd sk xs w)"
  by (simp add: run_ops_def)

lemma gz_target_prims [simp]:
  "gz_target (conn_Header_Set k v w) = gz_target w"
  "gz_target (conn_Header_Add k v w) = gz_target w"
  "gz_target (rw_WriteHeader t s w) = gz_target w"
  "gz_target (rw_Write t b w) = gz_target w"
  "gz_target (w\<lparr>clock := n\<rparr>) = gz_target w"
  "gz_target (emit e w) = gz_target w"
  by (cases t; simp add: gz_target_def)+

lemma run_op_gz_target [simp]: "gz_target (run_op cd sk x w) = gz_target w"
  by (cases x; cases sk) simp_all

lemma run_ops_gz_target [simp]: "gz_target (run_ops cd sk xs w) = gz_target w"
  by (induction xs arbitrary: w) simp_all

lemma filter_not_write_map [simp]: "filter not_write (map EvWrite cs) = []"
  by (induction cs) simp_all

lemma not_write_gzip_Write [simp]:
  "filter not_write (trace (gzip_Write cd b w)) = filter not_write (trace w)"
  using gzip_Write_trace[of cd b w] by auto

lemma not_write_rw_Write [simp]:
  "filter not_write (trace (rw_Write t b w)) = filter not_write (trace w)"
  by (cases t) simp_all

lemma trace_rw_WriteHeader [simp]:
  "trace (rw_WriteHeader t s w) = trace w @ [EvWriteHeader s]"
  by (cases t) simp_all

lemma not_write_run_op:
  "filter not_write (trace (run_op cd sk x w)) = filter not_write (trace w) @ calls_of x"
  by (cases x; cases sk) simp_all

lemma not_write_run_ops:
  "filter not_write (trace (run_ops cd sk ops w))
     = filter not_write (trace w) @ concat (map calls_of ops)"
  by (induction ops arbitrary: w) (simp_all add: not_write_run_op)

lemma Status_rw [simp]:
  "Status (lw (rw_Write t b w)) = Status (lw w)"
  "Status (lw (rw_WriteHeader Conn s w)) = Status (lw w)"
  "Status (lw (rw_WriteHeader LogWriter s w)) = s"
  by (cases t; simp)+

lemma Status_run_ops_Conn:
  "sk = Plain Conn \<or> sk = GzipWriter Conn \<Longrightarrow> Status (lw (run_ops cd sk ops w)) = Status (lw w)"
proof (induction ops arbitrary: w)
  case Nil
  then show ?case by simp
next
  case (Cons x xs)
  have "Status (lw (run_op cd sk x w)) = Status (lw w)"
    using Cons.prems by (cases x) auto
  with Cons show ?case by simp
qed

lemma Status_run_ops_LogWriter:
  "sk = Plain LogWriter \<or> sk = GzipWriter LogWriter \<Longrightarrow>
   Status (lw (run_ops cd sk ops w))
     = (if header_calls ops = [] then Status (lw w) else last (header_calls ops))"
proof (induction ops arbitrary: w)
  case Nil
  then show ?case by simp
next
  case (Cons x xs)
  show ?case
  proof (cases x)
    case (OpWriteHeader s)
    then have "Status (lw (run_op cd sk x w)) = s"
      using Cons.prems by auto
    with Cons OpWriteHeader show ?thesis by simp
  next
    case (OpHeaderSet k v)
    with Cons show ?thesis by simp
  next
    case (OpHeaderAdd k v)
    with Cons show ?thesis by simp
  next
    case (OpWrite b)
    then have "Status (lw (run_op cd sk x w)) = Status (lw w)"
      using Cons.prems by auto
    with Cons OpWrite show ?thesis by simp
  next
    case (OpElapse n)
    with Cons show ?thesis by simp
  qed
qed

section \<open>Status calls through \<open>GzipWriter\<close>\<close>

text \<open>
  Claim C8. Whatever a handler does on a \<open>GzipWriter\<close>, the calls other than byte
  writes that reach the connection are the handler's own calls, in order and with their
  arguments, the same as on the wrapped writer used directly; the status the recorder
  holds is the same with and without the \<open>GzipWriter\<close>; and \<open>WriteHeader\<close> on a
  \<open>GzipWriter\<close> is \<open>WriteHeader\<close> on the writer it wraps. Only \<open>Write\<close> goes to
  the compressor.
\<close>

theorem GzipWriter_status_passthrough:
  "filter not_write (trace (run_ops cd (GzipWriter t) ops w))
     = filter not_write (trace w) @ concat (map calls_of ops)
   \<and> filter not_write (trace (run_ops cd (GzipWriter t) ops w))
     = filter not_write (trace (run_ops cd (Plain t) ops w))
   \<and> Status (lw (run_ops cd (GzipWriter t) ops w)) = Status (lw (run_ops cd (Plain t) ops w))
   \<and> sink_WriteHeader (GzipWriter t) s w = rw_WriteHeader t s w"
proof -
  have "Status (lw (run_ops cd (GzipWriter t) ops w)) = Status (lw (run_ops cd (Plain t) ops w))"
    by (cases t) (simp_all add: Status_run_ops_Conn Status_run_ops_LogWriter)
  then show ?thesis
    by (simp add: not_write_run_ops)
qed

theorem GzipWriter_status_passthrough_witness:
  "filter not_write (trace (run_ops buffering_codec (GzipWriter LogWriter)
       [OpWrite ''early'', OpWriteHeader 404, OpWrite ''late'']
       (gzip_NewWriter buffering_codec LogWriter (new_world 64 ''GET'' 0))))
     = [EvWriteHeader 404]
   \<and> Status (lw (run_ops buffering_codec (Plain LogWriter)
       [OpWrite ''early'', OpWriteHeader 404, OpWrite ''late'']
       (gzip_NewWriter buffering_codec LogWriter (new_world 64 ''GET'' 0)))) = 404
   \<and> Status (lw (run_ops buffering_codec (GzipWriter LogWriter)
       [OpWrite ''early'', OpWriteHeader 404, OpWrite ''late'']
       (gzip_NewWriter buffering_codec LogWriter (new_world 64 ''GET'' 0)))) = 404"
  using GzipWriter_status_passthrough[of buffering_codec LogWriter
          "[OpWrite ''early'', OpWriteHeader 404, OpWrite ''late'']"
          "gzip_NewWriter buffering_codec LogWriter (new_world 64 ''GET'' 0)" 404]
  by (simp add: new_world_def)

section \<open>The status the connection sends\<close>

lemma response_first_WriteHeader:
  "\<not> wroteHeader c \<Longrightarrow> wroteHeader (response_WriteHeader s c) \<and> status (response_WriteHeader s c) = s"
  by (simp add: response_WriteHeader_def Let_def split: option.splits)

lemma response_Write_status:
  "wroteHeader (response_Write b c)
     = wroteHeader (if wroteHeader c then c else response_WriteHeader 200 c)"
  "status (response_Write b c)
     = status (if wroteHeader c then c else response_WriteHeader 200 c)"
  by (simp_all add: response_Write_def Let_def)

lemma response_sticky:
  "wroteHeader c \<Longrightarrow> wroteHeader (response_WriteHeader s c) \<and> status (response_WriteHeader s c) = status c"
  "wroteHeader c \<Longrightarrow> wroteHeader (response_Write b c) \<and> status (response_Write b c) = status c"
  by (simp_all add: response_WriteHeader_def response_Write_status)

lemma response_first_Write:
  "\<not> wroteHeader c \<Longrightarrow> wroteHeader (response_Write b c) \<and> status (response_Write b c) = 200"
  using response_first_WriteHeader[of c 200] by (simp add: response_Write_status)

lemma run_op_Plain_sticky:
  "wroteHeader (conn w) \<Longrightarrow>
   wroteHeader (conn (run_op cd (Plain LogWriter) x w))
   \<and> status (conn (run_op cd (Plain LogWriter) x w)) = status (conn w)"
  by (cases x) (simp_all add: response_sticky)

lemma run_ops_Plain_sticky:
  "wroteHeader (conn w) \<Longrightarrow>
   wroteHeader (conn (run_ops cd (Plain LogWriter) ops w))
   \<and> status (conn (run_ops cd (Plain LogWriter) ops w)) = status (conn w)"
proof (induction ops arbitrary: w)
  case Nil
  then show ?case by simp
next
  case (Cons x xs)
  from run_op_Plain_sticky[OF Cons.prems, of cd x] Cons.IH[of "run_op cd (Plain LogWriter) x w"]
  show ?case by simp
qed

lemma run_ops_Plain_default_200:
  "\<not> wroteHeader (conn w) \<Longrightarrow> header_calls ops = [] \<Longrightarrow> OpWrite b \<in> set ops \<Longrightarrow>
   status (conn (run_ops cd (Plain LogWriter) ops w)) = 200"
proof (induction ops arbitrary: w)
  case Nil
  then show ?case by simp
next
  case (Cons x xs)
  show ?case
  proof (cases x)
    case (OpWrite c)
    have "wroteHeader (conn (run_op cd (Plain LogWriter) x w))
          \<and> status (conn (run_op cd (Plain LogWriter) x w)) = 200"
      using OpWrite Cons.prems(1) by (simp add: response_first_Write)
    with run_ops_Plain_sticky[of "run_op cd (Plain LogWriter) x w" cd xs]
    show ?thesis by simp
  next
    case (OpWriteHeader s)
    with Cons.prems show ?thesis by simp
  next
    case (OpHeaderSet k v)
    with Cons.prems Cons.IH[of "run_op cd (Plain LogWriter) x w"] show ?thesis by simp
  next
    case (OpHeaderAdd k v)
    with Cons.prems Cons.IH[of "run_op cd (Plain LogWriter) x w"] show ?thesis by simp
  next
    case (OpElapse n)
    with Cons.prems Cons.IH[of "run_op cd (Plain LogWriter) x w"] show ?thesis by simp
  qed
qed


section \<open>The status the recorder holds\<close>

lemma recorder_status_last_call:
  "(sk = Plain LogWriter \<or> sk = GzipWriter LogWriter \<longrightarrow>
      Status (lw (run_ops cd sk ops w))
        = (if header_calls ops = [] then Status (lw w) else last (header_calls ops)))
   \<and> (header_calls ops = [] \<and> \<not> wroteHeader (conn w) \<and> OpWrite b \<in> set ops \<longrightarrow>
        Status (lw (run_ops cd (Plain LogWriter) ops (w\<lparr>lw := \<lparr>Status = 0, Bytes = 0\<rparr>\<rparr>))) = 0
        \<and> status (conn (run_ops cd (Plain LogWriter) ops (w\<lparr>lw := \<lparr>Status = 0, Bytes = 0\<rparr>\<rparr>))) = 200)"
proof -
  have rec: "Status (lw (run_ops cd (Plain LogWriter) ops (w\<lparr>lw := \<lparr>Status = 0, Bytes = 0\<rparr>\<rparr>))) = 0"
    if "header_calls ops = []"
    using that Status_run_ops_LogWriter[of "Plain LogWriter" cd ops "w\<lparr>lw := \<lparr>Status = 0, Bytes = 0\<rparr>\<rparr>"]
    by simp
  have sent: "status (conn (run_ops cd (Plain LogWriter) ops (w\<lparr>lw := \<lparr>Status = 0, Bytes = 0\<rparr>\<rparr>))) = 200"
    if "header_calls ops = []" "\<not> wroteHeader (conn w)" "OpWrite b \<in> set ops"
    using that run_ops_Plain_default_200[of "w\<lparr>lw := \<lparr>Status = 0, Bytes = 0\<rparr>\<rparr>" ops b cd]
    by simp
  show ?thesis
    using rec sent Status_run_ops_LogWriter[of sk cd ops w] by blast
qed

text \<open>
  Claim C1 at a request for a directory. The file server answers a directory with a
  listing: it sets the Content-Type and writes, and does not call \<open>WriteHeader\<close>, so
  the connection sends the status 200 with the first write. \<open>Writer.Write\<close> leaves
  \<open>Status\<close> as it is, so the recorder still holds 0 when the log line is written,
  and the line says 0 for a response that was sent as 200. (A status given to
  \<open>WriteHeader\<close> is recorded as the claim says: see \<open>recorder_status_last_call\<close>.)
\<close>

theorem recorder_status_unset_for_listing:
  "header_calls (fst (listing_server listing_request)) = []
   \<and> status (conn (fst (main_handler literal_regexp buffering_codec example_layout stdout_server
                          listing_server listing_request (new_world 64 ''GET'' 7)))) = 200
   \<and> Status (lw (fst (main_handler literal_regexp buffering_codec example_layout stdout_server
                          listing_server listing_request (new_world 64 ''GET'' 7)))) = 0
   \<and> log_lines (trace (fst (main_handler literal_regexp buffering_codec example_layout
                                 stdout_server listing_server listing_request
                                 (new_world 64 ''GET'' 7))))
       = [''203.0.113.5 [t7] GET '' @ [CHR 0x22] @ ''/pub/'' @ [CHR 0x22]
          @ '' 0 11 '' @ [CHR 0x22, CHR 0x22] @ '' '' @ [CHR 0x22, CHR 0x22, CHR 0x0A]]"
  by code_simp

section \<open>Properties of behaviours run against a writer\<close>

lemma map_EvWrite_conn [simp]: "list_all conn_event (map EvWrite cs)"
  by (induction cs) simp_all

lemma run_op_trace:
  "\<exists>tr. trace (run_op cd sk x w) = trace w @ tr \<and> list_all conn_event tr"
proof (cases x)
  case (OpWrite b)
  show ?thesis
  proof (cases sk)
    case (Plain t)
    have "trace (rw_Write t b w) = trace w @ [EvWrite b]" by (cases t) simp_all
    with OpWrite Plain show ?thesis by simp
  next
    case (GzipWriter t)
    from gzip_Write_trace[of cd b w] obtain cs
      where "trace (gzip_Write cd b w) = trace w @ map EvWrite cs" by blast
    with OpWrite GzipWriter show ?thesis by simp
  qed
next
  case (OpElapse n)
  then have "trace (run_op cd sk x w) = trace w @ [] \<and> list_all conn_event []" by simp
  then show ?thesis by blast
qed (cases sk; simp)+

lemma run_ops_trace:
  "\<exists>tr. trace (run_ops cd sk ops w) = trace w @ tr \<and> list_all conn_event tr"
proof (induction ops arbitrary: w)
  case Nil
  have "trace (run_ops cd sk [] w) = trace w @ [] \<and> list_all conn_event []" by simp
  then show ?case by blast
next
  case (Cons x xs)
  from run_op_trace[of cd sk x w] obtain t1
    where 1: "trace (run_op cd sk x w) = trace w @ t1" "list_all conn_event t1" by blast
  from Cons.IH[of "run_op cd sk x w"] obtain t2
    where 2: "trace (run_ops cd sk xs (run_op cd sk x w)) = trace (run_op cd sk x w) @ t2"
      "list_all conn_event t2" by blast
  from 1 2 have "trace (run_ops cd sk (x # xs) w) = trace w @ (t1 @ t2) \<and> list_all conn_event (t1 @ t2)"
    by simp
  then show ?case by blast
qed

lemma clock_rw [simp]:
  "clock (rw_Write t b w) = clock w" "clock (rw_WriteHeader t s w) = clock w"
  by (cases t; simp)+


lemma frames_rw [simp]:
  "gz (rw_WriteHeader t s w) = gz w" "gz (rw_Write t b w) = gz w"
  "int_size (rw_WriteHeader t s w) = int_size w" "int_size (rw_Write t b w) = int_size w"
  "taken (rw_WriteHeader t s w) = taken w" "taken (rw_Write t b w) = taken w + length b"
  "Bytes (lw (rw_WriteHeader t s w)) = Bytes (lw w)"
  by (cases t; simp)+

lemma run_op_int_size [simp]: "int_size (run_op cd sk x w) = int_size w"
  by (cases x; cases sk) simp_all

lemma run_ops_int_size [simp]: "int_size (run_ops cd sk ops w) = int_size w"
  by (induction ops arbitrary: w) simp_all





section \<open>Properties of the host filter\<close>

lemma http_NotFound_ops: "http_NotFound cd sk r w = run_ops cd sk NotFound_ops w"
  by (simp add: http_NotFound_def NotFound_ops_def)

lemma Handler_ServeHTTP_unfold:
  "Handler_ServeHTTP cd config files sk r w =
     (if strings_Index (Host r) (Hostname config) \<noteq> -1
      then (emit (EvFilesDone (snd (files r)))
              (run_ops cd sk (Handler_ops config files r) (emit (EvFilesCalled r) w)),
            snd (files r))
      else (run_ops cd sk (Handler_ops config files r) w, Returned))"
  by (simp add: Handler_ServeHTTP_def files_ServeHTTP_def http_NotFound_ops Handler_ops_def
      split: prod.splits)


lemma Handler_trace:
  "\<exists>tr. trace (fst (Handler_ServeHTTP cd config files sk r w)) = trace w @ tr
        \<and> list_all (\<lambda>e. \<not> is_log_line e \<and> \<not> is_close e) tr
        \<and> (strings_Index (Host r) (Hostname config) \<noteq> -1 \<longrightarrow>
             tr \<noteq> [] \<and> hd tr = EvFilesCalled r \<and> last tr = EvFilesDone (snd (files r)))
        \<and> (strings_Index (Host r) (Hostname config) = -1 \<longrightarrow> list_all conn_event tr)"
proof -
  have weaken: "list_all (\<lambda>e. \<not> is_log_line e \<and> \<not> is_close e) tr" if "list_all conn_event tr" for tr
    using that by (induction tr) (auto elim: conn_event.elims)
  show ?thesis
  proof (cases "strings_Index (Host r) (Hostname config) \<noteq> -1")
    case True
    from run_ops_trace[of cd sk "Handler_ops config files r" "emit (EvFilesCalled r) w"]
    obtain tr where tr: "trace (run_ops cd sk (Handler_ops config files r) (emit (EvFilesCalled r) w))
                           = trace (emit (EvFilesCalled r) w) @ tr" "list_all conn_event tr"
      by blast
    let ?tr = "EvFilesCalled r # tr @ [EvFilesDone (snd (files r))]"
    have "trace (fst (Handler_ServeHTTP cd config files sk r w)) = trace w @ ?tr"
      using True tr by (simp add: Handler_ServeHTTP_unfold)
    moreover have "list_all (\<lambda>e. \<not> is_log_line e \<and> \<not> is_close e) ?tr"
      using weaken[OF tr(2)] by simp
    moreover have "?tr \<noteq> [] \<and> hd ?tr = EvFilesCalled r \<and> last ?tr = EvFilesDone (snd (files r))"
      by simp
    ultimately show ?thesis using True by blast
  next
    case False
    from run_ops_trace[of cd sk "Handler_ops config files r" w]
    obtain tr where tr: "trace (run_ops cd sk (Handler_ops config files r) w) = trace w @ tr"
      "list_all conn_event tr" by blast
    have "trace (fst (Handler_ServeHTTP cd config files sk r w)) = trace w @ tr"
      using False tr by (simp add: Handler_ServeHTTP_unfold)
    with tr(2) weaken[OF tr(2)] False show ?thesis by blast
  qed
qed

lemma Handler_outcome:
  "snd (Handler_ServeHTTP cd config files sk r w)
     = (if strings_Index (Host r) (Hostname config) \<noteq> -1 then snd (files r) else Returned)"
  by (simp add: Handler_ServeHTTP_unfold)

lemma Handler_gz_target:
  "gz_target (fst (Handler_ServeHTTP cd config files sk r w)) = gz_target w"
  by (simp add: Handler_ServeHTTP_unfold)

section \<open>Properties of the compression middleware\<close>

lemma GZip_ServeHTTP_unfold:
  "GZip_ServeHTTP lib cd re inner t r w =
     (if gzip_applies lib re r
      then (gzip_Close cd
              (fst (inner (GzipWriter t) r
                     (gzip_NewWriter cd t (conn_Header_Set ''Content-Encoding'' ''gzip'' w)))),
            snd (inner (GzipWriter t) r
                   (gzip_NewWriter cd t (conn_Header_Set ''Content-Encoding'' ''gzip'' w))))
      else inner (Plain t) r w)"
  by (simp add: GZip_ServeHTTP_def gzip_applies_def Let_def split: prod.splits)

lemma gz_target_NewWriter [simp]: "gz_target (gzip_NewWriter cd t w) = Some t"
  by (simp add: gz_target_def)

lemma GZip_Handler_outcome:
  "snd (GZip_ServeHTTP lib cd re (Handler_ServeHTTP cd config files) t r w)
     = (if strings_Index (Host r) (Hostname config) \<noteq> -1 then snd (files r) else Returned)"
  by (simp add: GZip_ServeHTTP_unfold Handler_outcome)


text \<open>The events of the compression branch, in order.\<close>

lemma GZip_Handler_compress_trace:
  assumes "gzip_applies lib re r"
  shows "\<exists>tr cs g'.
           trace (fst (Handler_ServeHTTP cd config files (GzipWriter t) r
                         (gzip_NewWriter cd t (conn_Header_Set ''Content-Encoding'' ''gzip'' w))))
             = trace w @ EvHeaderSet ''Content-Encoding'' ''gzip'' # tr
           \<and> list_all (\<lambda>e. \<not> is_log_line e \<and> \<not> is_close e) tr
           \<and> trace (fst (GZip_ServeHTTP lib cd re (Handler_ServeHTTP cd config files) t r w))
             = trace w @ EvHeaderSet ''Content-Encoding'' ''gzip'' # tr @ EvGzipClose # map EvWrite cs
           \<and> gz (fst (GZip_ServeHTTP lib cd re (Handler_ServeHTTP cd config files) t r w)) = Some g'
           \<and> gz_closed g'"
proof -
  let ?w2 = "gzip_NewWriter cd t (conn_Header_Set ''Content-Encoding'' ''gzip'' w)"
  let ?w3 = "fst (Handler_ServeHTTP cd config files (GzipWriter t) r ?w2)"
  from Handler_trace[of cd config files "GzipWriter t" r ?w2] obtain tr
    where tr: "trace ?w3 = trace ?w2 @ tr" "list_all (\<lambda>e. \<not> is_log_line e \<and> \<not> is_close e) tr"
    by blast
  have "gz_target ?w3 = Some t" by (simp add: Handler_gz_target)
  then obtain g where g: "gz ?w3 = Some g" by (auto simp: gz_target_def)
  from gzip_Close_closed[OF g, of cd] obtain g'
    where g': "gz (gzip_Close cd ?w3) = Some g'" "gz_closed g'" by blast
  have fin: "fst (GZip_ServeHTTP lib cd re (Handler_ServeHTTP cd config files) t r w) = gzip_Close cd ?w3"
    using assms by (simp add: GZip_ServeHTTP_unfold)
  have a: "trace ?w3 = trace w @ EvHeaderSet ''Content-Encoding'' ''gzip'' # tr"
    using tr(1) by simp
  have b: "trace (gzip_Close cd ?w3)
      = trace w @ EvHeaderSet ''Content-Encoding'' ''gzip'' # tr
        @ EvGzipClose # map EvWrite (if gz_closed g then [] else c_close cd (gz_state g))"
    using gzip_Close_trace[OF g, of cd] tr(1) by simp
  show ?thesis
    apply (rule exI[of _ tr])
    apply (rule exI[of _ "if gz_closed g then [] else c_close cd (gz_state g)"])
    apply (rule exI[of _ g'])
    unfolding fin using a b tr(2) g' by blast
qed


lemma Handler_int_size [simp]:
  "int_size (fst (Handler_ServeHTTP cd config files sk r w)) = int_size w"
  by (simp add: Handler_ServeHTTP_unfold)



section \<open>Properties of the access log\<close>

lemma io_Write_emit:
  "io_Write l line w = emit (if writable l then EvLogLine line else EvLogWriteFailed line) w"
  by (cases l) (simp_all add: io_Write_def writable_def)

lemma Log_ServeHTTP_unfold:
  "Log_ServeHTTP l layout inner r w =
     (emit (if writable l
            then EvLogLine (access_line layout r
                   (fst (inner LogWriter r (w\<lparr>lw := \<lparr>Status = 0, Bytes = 0\<rparr>\<rparr>))))
            else EvLogWriteFailed (access_line layout r
                   (fst (inner LogWriter r (w\<lparr>lw := \<lparr>Status = 0, Bytes = 0\<rparr>\<rparr>)))))
        (fst (inner LogWriter r (w\<lparr>lw := \<lparr>Status = 0, Bytes = 0\<rparr>\<rparr>))),
      snd (inner LogWriter r (w\<lparr>lw := \<lparr>Status = 0, Bytes = 0\<rparr>\<rparr>)))"
  by (simp add: Log_ServeHTTP_def Let_def io_Write_emit split: prod.splits)

lemma access_line_emit [simp]: "access_line layout r (emit e w) = access_line layout r w"
  by (simp add: access_line_def)

lemma log_lines_append [simp]: "log_lines (xs @ ys) = log_lines xs @ log_lines ys"
  by (induction xs rule: log_lines.induct) simp_all


lemma SslHandler_facts:
  "snd (SslHandler_ServeHTTP cd (Plain LogWriter) r w) = Returned"
  "clock (fst (SslHandler_ServeHTTP cd (Plain LogWriter) r w)) = clock w"
  by (simp_all add: SslHandler_ServeHTTP_def http_Redirect_def Let_def)

lemma SslHandler_trace:
  "\<exists>tr. trace (fst (SslHandler_ServeHTTP cd (Plain LogWriter) r w)) = trace w @ tr
        \<and> list_all conn_event tr"
proof -
  have "\<exists>tr. trace (fst (SslHandler_ServeHTTP cd (Plain LogWriter) r w)) = trace w @ tr
        \<and> list_all conn_event tr \<and> length tr \<le> 5"
    by (simp add: SslHandler_ServeHTTP_def http_Redirect_def Let_def)
  then show ?thesis by blast
qed


section \<open>The lines of the access log\<close>


text \<open>
  Claim C3 at the server \<open>main\<close> starts when the log file can be opened. \<open>main\<close>
  opens the file with \<open>os.O_CREATE|os.O_APPEND\<close> and neither \<open>O_WRONLY\<close> nor
  \<open>O_RDWR\<close>, that is, for reading only; the \<open>Write\<close> of the deferred \<open>Fprintf\<close>
  fails, the error is ignored, and no line is appended for the request. When the file
  cannot be opened, the log goes to standard output and the request adds its one line,
  stamped with the clock after the inner handler (7 at the call, 3 taken by the
  handler).
\<close>

theorem access_log_file_opened_read_only:
  "main (\<lambda>name. True) literal_regexp (Some example_config) = Inr file_server_log
   \<and> log_lines (trace (fst (main_handler literal_regexp buffering_codec example_layout
                                 file_server_log page_server example_request
                                 (new_world 64 ''GET'' 7)))) = []
   \<and> main (\<lambda>name. False) literal_regexp (Some example_config) = Inr stdout_server
   \<and> log_lines (trace (fst (main_handler literal_regexp buffering_codec example_layout
                                 stdout_server page_server example_request
                                 (new_world 64 ''GET'' 7))))
       = [''203.0.113.5 [t10] GET '' @ [CHR 0x22] @ ''/index.html'' @ [CHR 0x22]
          @ '' 200 17 '' @ [CHR 0x22, CHR 0x22] @ '' '' @ [CHR 0x22, CHR 0x22, CHR 0x0A]]"
  by code_simp

section \<open>The byte count of the access log\<close>









section \<open>Facts about the examples\<close>

lemma example_host_matches:
  "strings_Index (Host example_request) (Hostname example_config) \<noteq> -1"
  by (simp add: example_request_def example_config_def server_request_def)

lemma example_gzip_applies:
  "gzip_applies literal_regexp (srv_regexp stdout_server) example_request"
  by code_simp


section \<open>Header first, compressor closed once\<close>

text \<open>
  Claim C9. When the middleware compresses (the client accepts gzip and the pattern
  matches), its first effect is to set \<open>Content-Encoding: gzip\<close>, before any event of
  the inner handler and so before any byte is written. The inner handler then runs to
  its end, returning or panicking, without closing the compressor; after that the
  compressor is closed, once, which writes what it still holds; and the state the
  middleware returns, together with the inner handler's outcome, has the compressor
  closed.
\<close>

theorem GZip_header_first_close_once:
  "gzip_applies lib re r \<Longrightarrow>
   \<exists>w3 tr cs g'.
     Handler_ServeHTTP cd config files (GzipWriter t) r
         (gzip_NewWriter cd t (conn_Header_Set ''Content-Encoding'' ''gzip'' w))
       = (w3, snd (GZip_ServeHTTP lib cd re (Handler_ServeHTTP cd config files) t r w))
     \<and> trace w3 = trace w @ EvHeaderSet ''Content-Encoding'' ''gzip'' # tr
     \<and> list_all (\<lambda>e. \<not> is_close e) tr
     \<and> trace (fst (GZip_ServeHTTP lib cd re (Handler_ServeHTTP cd config files) t r w))
         = trace w3 @ EvGzipClose # map EvWrite cs
     \<and> length (filter is_close
                 (drop (length (trace w))
                    (trace (fst (GZip_ServeHTTP lib cd re (Handler_ServeHTTP cd config files) t r w)))))
         = 1
     \<and> gz (fst (GZip_ServeHTTP lib cd re (Handler_ServeHTTP cd config files) t r w)) = Some g'
     \<and> gz_closed g'"
proof -
  assume a: "gzip_applies lib re r"
  let ?w2 = "gzip_NewWriter cd t (conn_Header_Set ''Content-Encoding'' ''gzip'' w)"
  let ?H = "Handler_ServeHTTP cd config files (GzipWriter t) r ?w2"
  let ?G = "GZip_ServeHTTP lib cd re (Handler_ServeHTTP cd config files) t r w"
  from GZip_Handler_compress_trace[OF a, of cd config files t w] obtain tr cs g'
    where f: "trace (fst ?H) = trace w @ EvHeaderSet ''Content-Encoding'' ''gzip'' # tr"
      "list_all (\<lambda>e. \<not> is_log_line e \<and> \<not> is_close e) tr"
      "trace (fst ?G) = trace w @ EvHeaderSet ''Content-Encoding'' ''gzip'' # tr
                          @ EvGzipClose # map EvWrite cs"
      "gz (fst ?G) = Some g'" "gz_closed g'"
    by blast
  from f(2) have nc: "list_all (\<lambda>e. \<not> is_close e) tr" by (induction tr) simp_all
  then have z: "filter is_close tr = []" by (induction tr) simp_all
  have zw: "filter is_close (map EvWrite cs) = []" by (induction cs) simp_all
  have once: "length (filter is_close (drop (length (trace w)) (trace (fst ?G)))) = 1"
    using f(3) z zw by simp
  have out: "?H = (fst ?H, snd ?G)"
    using a by (simp add: GZip_ServeHTTP_unfold)
  have tr3: "trace (fst ?G) = trace (fst ?H) @ EvGzipClose # map EvWrite cs"
    using f(1) f(3) by simp
  show ?thesis
    apply (rule exI[of _ "fst ?H"])
    apply (rule exI[of _ tr])
    apply (rule exI[of _ cs])
    apply (rule exI[of _ g'])
    using out f(1) nc tr3 once f(4) f(5) by blast
qed

theorem GZip_header_first_close_once_witness:
  "gzip_applies literal_regexp (srv_regexp stdout_server) example_request
   \<and> snd (GZip_ServeHTTP literal_regexp buffering_codec (srv_regexp stdout_server)
            (Handler_ServeHTTP buffering_codec example_config panicking_server)
            LogWriter example_request (new_world 64 ''GET'' 7)) = Panicked ''boom''
   \<and> length (filter is_close
        (trace (fst (GZip_ServeHTTP literal_regexp buffering_codec (srv_regexp stdout_server)
            (Handler_ServeHTTP buffering_codec example_config panicking_server)
            LogWriter example_request (new_world 64 ''GET'' 7))))) = 1"
  using GZip_header_first_close_once[OF example_gzip_applies, of buffering_codec example_config
          panicking_server LogWriter "new_world 64 ''GET'' 7"]
        example_gzip_applies example_host_matches
  by (auto simp: new_world_def GZip_Handler_outcome panicking_server_def)

section \<open>Properties of the host filter on the connection\<close>

lemma strings_Index_lower: "-1 \<le> strings_Index s sub"
  by (induction s) (simp_all add: Let_def)

lemma strings_Index_sublist: "strings_Index s sub \<noteq> -1 \<longleftrightarrow> sublist sub s"
proof (induction s)
  case Nil
  then show ?case by simp
next
  case (Cons c cs)
  show ?case
  proof (cases "prefix sub (c # cs)")
    case True
    then show ?thesis by (simp add: prefix_imp_sublist)
  next
    case False
    have "strings_Index (c # cs) sub \<noteq> -1 \<longleftrightarrow> strings_Index cs sub \<noteq> -1"
      using False strings_Index_lower[of cs sub] by (auto simp: Let_def)
    also have "\<dots> \<longleftrightarrow> sublist sub cs" by (rule Cons.IH)
    also have "\<dots> \<longleftrightarrow> sublist sub (c # cs)" using False by (simp add: sublist_Cons_right)
    finally show ?thesis .
  qed
qed

lemma sticky_rw:
  "wroteHeader (conn w) \<Longrightarrow>
     wroteHeader (conn (rw_Write t b w)) \<and> status (conn (rw_Write t b w)) = status (conn w)"
  "wroteHeader (conn w) \<Longrightarrow>
     wroteHeader (conn (rw_WriteHeader t s w)) \<and> status (conn (rw_WriteHeader t s w)) = status (conn w)"
  by (cases t; simp add: response_sticky)+

lemma sticky_write_all:
  "wroteHeader (conn w) \<Longrightarrow>
     wroteHeader (conn (write_all t cs w)) \<and> status (conn (write_all t cs w)) = status (conn w)"
proof (induction cs arbitrary: w)
  case Nil
  then show ?case by simp
next
  case (Cons c cs)
  from sticky_rw(1)[OF Cons.prems, of t c] Cons.IH[of "rw_Write t c w"]
  show ?case by simp
qed

lemma sticky_gzip_Write:
  "wroteHeader (conn w) \<Longrightarrow>
     wroteHeader (conn (gzip_Write cd b w)) \<and> status (conn (gzip_Write cd b w)) = status (conn w)"
proof (cases "gz w")
  case None
  assume "wroteHeader (conn w)"
  with None show ?thesis by (simp add: gzip_Write_def)
next
  case (Some g)
  assume a: "wroteHeader (conn w)"
  obtain st cs where cw: "c_write cd (gz_state g) b = (st, cs)" by (cases "c_write cd (gz_state g) b")
  have "wroteHeader (conn (w\<lparr>gz := Some (g\<lparr>gz_state := st\<rparr>)\<rparr>))" using a by simp
  from sticky_write_all[OF this, of "gz_w g" cs] Some cw a
  show ?thesis by (simp add: gzip_Write_def)
qed

lemma sticky_gzip_Close:
  "wroteHeader (conn w) \<Longrightarrow>
     wroteHeader (conn (gzip_Close cd w)) \<and> status (conn (gzip_Close cd w)) = status (conn w)"
proof (cases "gz w")
  case None
  assume "wroteHeader (conn w)"
  with None show ?thesis by (simp add: gzip_Close_def)
next
  case (Some g)
  assume a: "wroteHeader (conn w)"
  have "wroteHeader (conn (emit EvGzipClose (w\<lparr>gz := Some (g\<lparr>gz_closed := True\<rparr>)\<rparr>)))"
    using a by simp
  from sticky_write_all[OF this, of "gz_w g" "c_close cd (gz_state g)"] Some a
  show ?thesis by (simp add: gzip_Close_def)
qed

lemma sticky_sink_Write:
  "wroteHeader (conn w) \<Longrightarrow>
     wroteHeader (conn (sink_Write cd sk b w)) \<and> status (conn (sink_Write cd sk b w)) = status (conn w)"
  by (cases sk) (simp_all add: sticky_rw sticky_gzip_Write)

lemma NotFound_status:
  assumes "\<not> wroteHeader (conn w)"
  shows "wroteHeader (conn (run_ops cd sk NotFound_ops w))
         \<and> status (conn (run_ops cd sk NotFound_ops w)) = 404"
proof -
  let ?w1 = "conn_Header_Set ''X-Content-Type-Options'' ''nosniff''
               (conn_Header_Set ''Content-Type'' ''text/plain; charset=utf-8'' w)"
  have n: "\<not> wroteHeader (conn ?w1)" using assms by simp
  have h: "wroteHeader (conn (sink_WriteHeader sk 404 ?w1))
           \<and> status (conn (sink_WriteHeader sk 404 ?w1)) = 404"
    using n by (cases sk; rename_tac t; case_tac t) (simp_all add: response_first_WriteHeader)
  from sticky_sink_Write[of "sink_WriteHeader sk 404 ?w1" cd sk "''404 page not found'' @ [CHR 0x0A]"] h
  show ?thesis by (simp add: NotFound_ops_def)
qed

lemma NotFound_Status:
  "sk = Plain LogWriter \<or> sk = GzipWriter LogWriter \<Longrightarrow>
   Status (lw (run_ops cd sk NotFound_ops w)) = 404"
  using Status_run_ops_LogWriter[of sk cd NotFound_ops w]
  by (simp add: NotFound_ops_def)

lemma conn_event_not_files: "list_all conn_event tr \<Longrightarrow> list_all (\<lambda>e. \<not> is_files_call e) tr"
  by (induction tr) (auto elim: conn_event.elims)

lemma gzip_Close_no_files:
  "list_all (\<lambda>e. \<not> is_files_call e) (trace w) \<Longrightarrow>
   list_all (\<lambda>e. \<not> is_files_call e) (trace (gzip_Close cd w))"
proof (cases "gz w")
  case None
  assume "list_all (\<lambda>e. \<not> is_files_call e) (trace w)"
  with None show ?thesis by (simp add: gzip_Close_def)
next
  case (Some g)
  assume a: "list_all (\<lambda>e. \<not> is_files_call e) (trace w)"
  have "list_all (\<lambda>e. \<not> is_files_call e) (map EvWrite cs)" for cs
    by (induction cs) simp_all
  with a gzip_Close_trace[OF Some, of cd] show ?thesis by simp
qed

lemma run_ops_no_files:
  "list_all (\<lambda>e. \<not> is_files_call e) (trace w) \<Longrightarrow>
   list_all (\<lambda>e. \<not> is_files_call e) (trace (run_ops cd sk ops w))"
  using run_ops_trace[of cd sk ops w] conn_event_not_files by auto

text \<open>What the chain below the access log does with a request for another host.\<close>

lemma GZip_Handler_other_host:
  assumes h: "strings_Index (Host r) (Hostname config) = -1"
    and n: "\<not> wroteHeader (conn w)"
    and f: "list_all (\<lambda>e. \<not> is_files_call e) (trace w)"
  shows "status (conn (fst (GZip_ServeHTTP lib cd re (Handler_ServeHTTP cd config files) LogWriter r w))) = 404"
    and "Status (lw (fst (GZip_ServeHTTP lib cd re (Handler_ServeHTTP cd config files) LogWriter r w))) = 404"
    and "list_all (\<lambda>e. \<not> is_files_call e)
           (trace (fst (GZip_ServeHTTP lib cd re (Handler_ServeHTTP cd config files) LogWriter r w)))"
proof -
  let ?G = "fst (GZip_ServeHTTP lib cd re (Handler_ServeHTTP cd config files) LogWriter r w)"
  let ?w2 = "gzip_NewWriter cd LogWriter (conn_Header_Set ''Content-Encoding'' ''gzip'' w)"
  have ops: "Handler_ops config files r = NotFound_ops" using h by (simp add: Handler_ops_def)
  have G: "?G = (if gzip_applies lib re r
                 then gzip_Close cd (run_ops cd (GzipWriter LogWriter) NotFound_ops ?w2)
                 else run_ops cd (Plain LogWriter) NotFound_ops w)"
    using h by (simp add: GZip_ServeHTTP_unfold Handler_ServeHTTP_unfold ops)
  have n2: "\<not> wroteHeader (conn ?w2)" using n by simp
  have f2: "list_all (\<lambda>e. \<not> is_files_call e) (trace ?w2)" using f by simp
  show "status (conn ?G) = 404"
    using NotFound_status[OF n, of cd "Plain LogWriter"]
      NotFound_status[OF n2, of cd "GzipWriter LogWriter"]
      sticky_gzip_Close[of "run_ops cd (GzipWriter LogWriter) NotFound_ops ?w2" cd]
    by (simp add: G)
  show "Status (lw ?G) = 404"
    by (simp add: G NotFound_Status)
  show "list_all (\<lambda>e. \<not> is_files_call e) (trace ?G)"
    using run_ops_no_files[OF f, of cd "Plain LogWriter" NotFound_ops]
      gzip_Close_no_files[OF run_ops_no_files[OF f2, of cd "GzipWriter LogWriter" NotFound_ops], of cd]
    by (simp add: G)
qed

section \<open>The host filter\<close>

text \<open>
  Claim C5. When the Host header of a request contains the configured hostname as a
  substring, \<open>Handler.ServeHTTP\<close> is the file server's \<open>ServeHTTP\<close> on the same
  writer and the same request. When it does not, \<open>Handler.ServeHTTP\<close> returns
  normally, none of its events is a call of the file server, and the status it sends is
  404 whenever no status had been sent before; on the main listener, where the handler
  is reached through the access log and the compression middleware, the status of the
  response is 404, the recorder holds 404, and the file server is not called
  during the whole request.
\<close>

theorem host_filter:
  "(sublist (Hostname config) (Host r) \<longrightarrow>
      Handler_ServeHTTP cd config files sk r w = files_ServeHTTP cd files sk r w)
   \<and> (\<not> sublist (Hostname config) (Host r) \<longrightarrow>
        snd (Handler_ServeHTTP cd config files sk r w) = Returned
        \<and> (\<exists>tr. trace (fst (Handler_ServeHTTP cd config files sk r w)) = trace w @ tr
                 \<and> list_all (\<lambda>e. \<not> is_files_call e) tr)
        \<and> (\<not> wroteHeader (conn w) \<longrightarrow>
              status (conn (fst (Handler_ServeHTTP cd config files sk r w))) = 404))
   \<and> (\<not> sublist (Hostname (srv_config srv)) (Host r) \<longrightarrow>
        status (conn (fst (main_handler lib cd layout srv files r (new_world bits m now)))) = 404
        \<and> Status (lw (fst (main_handler lib cd layout srv files r (new_world bits m now)))) = 404
        \<and> list_all (\<lambda>e. \<not> is_files_call e)
             (trace (fst (main_handler lib cd layout srv files r (new_world bits m now)))))"
proof -
  have 1: "Handler_ServeHTTP cd config files sk r w = files_ServeHTTP cd files sk r w"
    if "sublist (Hostname config) (Host r)"
    using that strings_Index_sublist[of "Host r" "Hostname config"]
    by (simp add: Handler_ServeHTTP_def)
  have idx: "strings_Index (Host r) (Hostname config) = -1"
    if "\<not> sublist (Hostname config) (Host r)"
    using that strings_Index_sublist[of "Host r" "Hostname config"] by simp
  have 2: "snd (Handler_ServeHTTP cd config files sk r w) = Returned
        \<and> (\<exists>tr. trace (fst (Handler_ServeHTTP cd config files sk r w)) = trace w @ tr
                 \<and> list_all (\<lambda>e. \<not> is_files_call e) tr)
        \<and> (\<not> wroteHeader (conn w) \<longrightarrow>
              status (conn (fst (Handler_ServeHTTP cd config files sk r w))) = 404)"
    if nh: "\<not> sublist (Hostname config) (Host r)"
  proof -
    note i = idx[OF nh]
    from Handler_trace[of cd config files sk r w] i obtain tr
      where "trace (fst (Handler_ServeHTTP cd config files sk r w)) = trace w @ tr"
        "list_all conn_event tr" by auto
    then have "\<exists>tr. trace (fst (Handler_ServeHTTP cd config files sk r w)) = trace w @ tr
                 \<and> list_all (\<lambda>e. \<not> is_files_call e) tr"
      using conn_event_not_files by blast
    moreover have "status (conn (fst (Handler_ServeHTTP cd config files sk r w))) = 404"
      if "\<not> wroteHeader (conn w)"
      using NotFound_status[OF that, of cd sk] i
      by (simp add: Handler_ServeHTTP_unfold Handler_ops_def)
    ultimately show ?thesis using i by (simp add: Handler_outcome)
  qed
  have 3: "status (conn (fst (main_handler lib cd layout srv files r (new_world bits m now)))) = 404
        \<and> Status (lw (fst (main_handler lib cd layout srv files r (new_world bits m now)))) = 404
        \<and> list_all (\<lambda>e. \<not> is_files_call e)
             (trace (fst (main_handler lib cd layout srv files r (new_world bits m now))))"
    if nh: "\<not> sublist (Hostname (srv_config srv)) (Host r)"
  proof -
    let ?w0 = "(new_world bits m now :: 'a world)\<lparr>lw := \<lparr>Status = 0, Bytes = 0\<rparr>\<rparr>"
    have n: "\<not> wroteHeader (conn ?w0)" by (simp add: new_world_def new_response_def)
    have f: "list_all (\<lambda>e. \<not> is_files_call e) (trace ?w0)" by (simp add: new_world_def)
    have i: "strings_Index (Host r) (Hostname (srv_config srv)) = -1"
      using nh strings_Index_sublist[of "Host r" "Hostname (srv_config srv)"] by simp
    from GZip_Handler_other_host[OF i n f, of lib cd "srv_regexp srv" files]
    show ?thesis by (simp add: main_handler_def Log_ServeHTTP_unfold)
  qed
  from 1 2 3 show ?thesis by blast
qed

lemma other_host_no_match:
  "strings_Index (Host other_host_request) (Hostname (srv_config stdout_server)) = -1"
  by code_simp

theorem host_filter_witness:
  "sublist (Hostname example_config) (Host example_request)
   \<and> Handler_ServeHTTP buffering_codec example_config page_server (Plain LogWriter)
        example_request (new_world 64 ''GET'' 0)
      = files_ServeHTTP buffering_codec page_server (Plain LogWriter) example_request
          (new_world 64 ''GET'' 0)
   \<and> \<not> sublist (Hostname (srv_config stdout_server)) (Host other_host_request)
   \<and> status (conn (fst (main_handler literal_regexp buffering_codec example_layout stdout_server
                           page_server other_host_request (new_world 64 ''GET'' 0)))) = 404
   \<and> Status (lw (fst (main_handler literal_regexp buffering_codec example_layout stdout_server
                           page_server other_host_request (new_world 64 ''GET'' 0)))) = 404"
proof -
  have a: "sublist (Hostname example_config) (Host example_request)"
    using example_host_matches strings_Index_sublist by blast
  have b: "\<not> sublist (Hostname (srv_config stdout_server)) (Host other_host_request)"
    using other_host_no_match strings_Index_sublist by blast
  from a b
    host_filter[where config = example_config and r = example_request and cd = buffering_codec
      and files = page_server and sk = "Plain LogWriter" and w = "new_world 64 ''GET'' 0"]
    host_filter[where config = example_config and r = other_host_request
      and cd = buffering_codec and files = page_server and sk = "Plain LogWriter"
      and w = "new_world 64 ''GET'' 0" and srv = stdout_server and lib = literal_regexp
      and layout = example_layout and bits = 64 and m = "''GET''" and now = 0]
  show ?thesis by blast
qed



section \<open>When the response is compressed\<close>






section \<open>The redirect of the plain-HTTP listener\<close>

text \<open>
  Claim C6 at the request \<open>GET /foo?a=1\<close> for the host \<open>example.com\<close>. The response
  is a 301 with the Strict-Transport-Security header, and its Location has the scheme
  \<open>https\<close>; but the URL of a request received by the server has no host, and the
  handler does not set one, so the Location is \<open>https:///foo?a=1\<close> and not
  \<open>https://example.com/foo?a=1\<close>.
\<close>

theorem redirect_location_without_host:
  "status (conn (fst (redirect_handler Stdout buffering_codec example_layout
      (server_request ''GET'' ''/foo?a=1'' ''example.com'' ''203.0.113.5:51000'' Map.empty)
      (new_world 64 ''GET'' 0)))) = 301
   \<and> header (conn (fst (redirect_handler Stdout buffering_codec example_layout
      (server_request ''GET'' ''/foo?a=1'' ''example.com'' ''203.0.113.5:51000'' Map.empty)
      (new_world 64 ''GET'' 0)))) ''Strict-Transport-Security'' = Some [''max-age=604800'']
   \<and> header (conn (fst (redirect_handler Stdout buffering_codec example_layout
      (server_request ''GET'' ''/foo?a=1'' ''example.com'' ''203.0.113.5:51000'' Map.empty)
      (new_world 64 ''GET'' 0)))) ''Location'' = Some [''https:///foo?a=1'']
   \<and> ''https:///foo?a=1'' \<noteq> ''https://example.com/foo?a=1''"
  by code_simp

end
